theory Spec2Isabelle
  imports Complex_Main "HOL-Library.Word" "HOL-Library.Log_Nat"
begin

section \<open>Basketball free-throw haptic trainer: the control core of main.cpp\<close>

text \<open>
  The development embeds \<^verbatim>\<open>main.cpp\<close> (with the declarations of \<^verbatim>\<open>haptic.h\<close> and
  \<^verbatim>\<open>sensors.h\<close>) function by function.

  Conventions of the embedding.
  \<^item> A C++ \<^verbatim>\<open>double\<close> is a \<^typ>\<open>real\<close>. In \<^verbatim>\<open>detectShotMotion\<close>, whose answer depends on
    how its operands are rounded, every operation is rounded to the nearest binary64 value.
    Elsewhere arithmetic is exact and rounding is not modelled; the concrete inputs used
    there are chosen away from the comparison thresholds.
  \<^item> \<^verbatim>\<open>unsigned long\<close> is a 64-bit word (subtraction wraps, comparison is unsigned).
  \<^item> \<^verbatim>\<open>int\<close> is \<^typ>\<open>int\<close>; the counters of the program stay far from the machine bounds.
  \<^item> \<^verbatim>\<open>rand()\<close> and \<^verbatim>\<open>millis()\<close> read the environment. The state carries the sequence of
    values each of them is going to return and the number of calls made so far.
  \<^item> \<^verbatim>\<open>std::cout\<close> and the calls into the haptic driver (declared in \<^verbatim>\<open>haptic.h\<close>, not
    defined in the repository) are recorded in two traces of the state.
  \<^item> \<^verbatim>\<open>sleep_for\<close> only passes time and has no counterpart.
  \<^item> \<^verbatim>\<open>main\<close> calls \<^verbatim>\<open>setup\<close> once and then \<^verbatim>\<open>loop\<close> forever. \<^verbatim>\<open>setup\<close> prints a banner and calls
    the initialisers of the sensor, haptic and logging subsystems, which the repository only
    declares; it assigns none of the variables below and is left out. So is the global
    \<^verbatim>\<open>currentShot\<close>, which is never read or written.
\<close>

subsection \<open>Data (main.cpp, haptic.h, sensors.h)\<close>

type_synonym ulong = "64 word"

datatype SystemState = STANDBY | CALIBRATION | TRAINING | DATA_REVIEW

record FreeThrowData =
  elbowAngle :: real
  wristAngle :: real
  releaseTiming :: real
  followThrough :: real
  bodyBalance :: real
  wasSuccessful :: bool
  shotDuration :: ulong
  peakAcceleration :: real

record CalibrationData =
  avgElbowAngle :: real
  avgWristAngle :: real
  avgReleaseTiming :: real
  avgFollowThrough :: real
  avgBodyBalance :: real
  stdDevElbow :: real
  stdDevWrist :: real
  stdDevTiming :: real
  isValid :: bool

datatype HapticPattern =
  NONE | SINGLE_PULSE | DOUBLE_PULSE | TRIPLE_PULSE | CONTINUOUS
  | INCREASING | DECREASING | ALTERNATING | WAVE

datatype FeedbackIntensity = LIGHT | MEDIUM | STRONG

datatype FeedbackZone = UPPER_ARM | LOWER_ARM | WRIST | ALL_ZONES

fun intensityValue :: "FeedbackIntensity \<Rightarrow> int" where
  "intensityValue LIGHT = 64"
| "intensityValue MEDIUM = 128"
| "intensityValue STRONG = 255"

definition HAPTIC_1_PIN :: int where "HAPTIC_1_PIN = 25"
definition HAPTIC_2_PIN :: int where "HAPTIC_2_PIN = 26"
definition HAPTIC_3_PIN :: int where "HAPTIC_3_PIN = 27"

definition CALIBRATION_SAMPLES :: int where "CALIBRATION_SAMPLES = 10"
definition MOTION_THRESHOLD :: int where "MOTION_THRESHOLD = 5000"
definition SHOT_DETECTION_THRESHOLD :: int where "SHOT_DETECTION_THRESHOLD = 15000"

definition ELBOW_ANGLE_TOLERANCE :: real where "ELBOW_ANGLE_TOLERANCE = 5.0"
definition WRIST_ANGLE_TOLERANCE :: real where "WRIST_ANGLE_TOLERANCE = 3.0"

text \<open>What the program writes to \<^verbatim>\<open>std::cout\<close>, one constructor per statement.\<close>

datatype ConsoleLine =
    StatusStandby
  | SensorBNO055 nat nat nat
  | SensorMPU6050 nat nat nat
  | CalibrationPrompt
  | CalibrationShotRecorded int
  | CalibrationComplete
  | AverageElbowAngle real
  | PleaseCalibrateFirst
  | ShotAnalyzed
  | DataReviewMode
  | TotalShots int
  | CalibratedElbowAngle real
  | HapticElbowCorrection
  | HapticWristCorrection
  | HapticGoodForm
  | SwitchedToTraining
  | SwitchedToDataReview
  | SwitchedToStandby
  | ShotOutcomeRecorded
  | BatteryVoltage real
  | LowBatteryWarning

text \<open>The two entry points of the haptic driver that main.cpp calls.\<close>

datatype HapticCall =
    TriggerHapticFeedback int int ulong
  | TriggerPatternFeedback FeedbackZone HapticPattern FeedbackIntensity

subsection \<open>Program state: globals, function-local statics, environment, traces\<close>

record State =
  currentState :: SystemState
  calibrationData :: CalibrationData
  isCalibrated :: bool
  shotCount :: int
  lastShotTime :: ulong
  lastButtonCheck :: ulong
  lastBlink :: ulong
  lastPrint :: ulong
  calibrationShots :: int
  elbowSum :: real
  wristSum :: real
  timingSum :: real
  lastAccel :: real
  lastBatteryCheck :: ulong
  randSeq :: "nat \<Rightarrow> nat"
  randCalls :: nat
  clockSeq :: "nat \<Rightarrow> ulong"
  clockCalls :: nat
  console :: "ConsoleLine list"
  hapticCalls :: "HapticCall list"

definition zeroCalibration :: CalibrationData where
  "zeroCalibration =
     \<lparr> avgElbowAngle = 0, avgWristAngle = 0, avgReleaseTiming = 0, avgFollowThrough = 0,
       avgBodyBalance = 0, stdDevElbow = 0, stdDevWrist = 0, stdDevTiming = 0,
       isValid = False \<rparr>"

text \<open>
  The state at program start: objects of static storage duration are zero-initialised
  unless they have an initialiser.
\<close>

definition initialState :: "(nat \<Rightarrow> nat) \<Rightarrow> (nat \<Rightarrow> ulong) \<Rightarrow> State" where
  "initialState rs cs =
     \<lparr> currentState = STANDBY, calibrationData = zeroCalibration, isCalibrated = False,
       shotCount = 0, lastShotTime = 0, lastButtonCheck = 0, lastBlink = 0, lastPrint = 0,
       calibrationShots = 0, elbowSum = 0, wristSum = 0, timingSum = 0, lastAccel = 0,
       lastBatteryCheck = 0, randSeq = rs, randCalls = 0, clockSeq = cs, clockCalls = 0,
       console = [], hapticCalls = [] \<rparr>"

subsection \<open>Environment and traces\<close>

definition rand :: "State \<Rightarrow> nat \<times> State" where
  "rand s = (randSeq s (randCalls s), s\<lparr>randCalls := randCalls s + 1\<rparr>)"

definition millis :: "State \<Rightarrow> ulong \<times> State" where
  "millis s = (clockSeq s (clockCalls s), s\<lparr>clockCalls := clockCalls s + 1\<rparr>)"

definition cout :: "ConsoleLine \<Rightarrow> State \<Rightarrow> State" where
  "cout l s = s\<lparr>console := console s @ [l]\<rparr>"

definition triggerHapticFeedback :: "int \<Rightarrow> int \<Rightarrow> ulong \<Rightarrow> State \<Rightarrow> State" where
  "triggerHapticFeedback p i d s = s\<lparr>hapticCalls := hapticCalls s @ [TriggerHapticFeedback p i d]\<rparr>"

definition triggerPatternFeedback ::
    "FeedbackZone \<Rightarrow> HapticPattern \<Rightarrow> FeedbackIntensity \<Rightarrow> State \<Rightarrow> State" where
  "triggerPatternFeedback z p i s =
     s\<lparr>hapticCalls := hapticCalls s @ [TriggerPatternFeedback z p i]\<rparr>"

subsection \<open>Double-precision arithmetic\<close>

text \<open>
  A \<^verbatim>\<open>double\<close> in IEEE 754 binary64 arithmetic, evaluated in double precision: every literal
  and every operation is rounded once to the nearest representable value, ties to the even
  significand. A binary64 value is an integer multiple of \<open>2 powi (e - 52)\<close>, where \<open>e\<close> is
  the exponent of its binade and at least \<open>-1022\<close> (below that the values are subnormal and
  keep the spacing \<open>2 powi (- 1074)\<close>). Overflow to infinity is left out: the values of the
  detector stay below 20.
\<close>

definition roundEven :: "real \<Rightarrow> int" where
  "roundEven z =
     (let f = \<lfloor>z\<rfloor>; d = z - of_int f
      in if d < 1 / 2 then f else if d > 1 / 2 then f + 1 else if even f then f else f + 1)"

text \<open>The exponent \<open>e\<close> with \<open>2 powi e \<le> x < 2 powi (e + 1)\<close>, for \<open>x\<close> from \<open>2 powi (- 1074)\<close> on.\<close>

definition binade :: "real \<Rightarrow> int" where
  "binade x = bitlen \<lfloor>x * 2 ^ 1074\<rfloor> - 1075"

definition roundDouble :: "real \<Rightarrow> real" where
  "roundDouble x =
     (if x = 0 then 0
      else (let e = max (binade \<bar>x\<bar>) (- 1022); q = 2 powi (e - 52)
            in q * of_int (roundEven (x / q))))"

definition dadd :: "real \<Rightarrow> real \<Rightarrow> real" where
  "dadd a b = roundDouble (a + b)"

definition dsub :: "real \<Rightarrow> real \<Rightarrow> real" where
  "dsub a b = roundDouble (a - b)"

definition ddiv :: "real \<Rightarrow> real \<Rightarrow> real" where
  "ddiv a b = roundDouble (a / b)"

subsection \<open>Shot detection and analysis\<close>

text \<open>
  In \<^verbatim>\<open>9.8 + (rand() % 100) / 10.0\<close> the literal 9.8 is the double nearest to it, the
  remainder is converted exactly, and the quotient and the sum are rounded; so is the
  difference to the previous sample. 10.0 and 5.0 are doubles, and \<^verbatim>\<open>std::abs\<close> and the
  comparison are exact.
\<close>

definition detectShotMotion :: "State \<Rightarrow> bool \<times> State" where
  "detectShotMotion s =
     (let (r, s1) = rand s;
          currentAccel = dadd (roundDouble 9.8) (ddiv (real (r mod 100)) 10.0);
          motionDetected = (\<bar>dsub currentAccel (lastAccel s1)\<bar> > 5.0)
      in (motionDetected, s1\<lparr>lastAccel := currentAccel\<rparr>))"

text \<open>
  \<^verbatim>\<open>analyzeShotForm\<close> fills a local \<^verbatim>\<open>FreeThrowData\<close> that it never initialises; it assigns
  five of the eight fields. The first argument stands for the indeterminate contents the
  local starts with.
\<close>

definition analyzeShotForm :: "FreeThrowData \<Rightarrow> State \<Rightarrow> FreeThrowData \<times> State" where
  "analyzeShotForm u s =
     (let (r1, s1) = rand s;
          (r2, s2) = rand s1;
          (r3, s3) = rand s2;
          (r4, s4) = rand s3;
          (r5, s5) = rand s4
      in (u\<lparr> elbowAngle := 90.0 + real (r1 mod 20) - 10,
              wristAngle := 45.0 + real (r2 mod 10) - 5,
              releaseTiming := 1.5 + real (r3 mod 100) / 1000.0,
              followThrough := 0.8 + real (r4 mod 40) / 100.0,
              peakAcceleration := 15.0 + real (r5 mod 10) \<rparr>, s5))"

definition provideHapticFeedback :: "FreeThrowData \<Rightarrow> State \<Rightarrow> State" where
  "provideHapticFeedback shotData s =
     (let elbowError = \<bar>elbowAngle shotData - avgElbowAngle (calibrationData s)\<bar>;
          wristError = \<bar>wristAngle shotData - avgWristAngle (calibrationData s)\<bar>
      in if elbowError > ELBOW_ANGLE_TOLERANCE then
           cout HapticElbowCorrection (triggerHapticFeedback HAPTIC_1_PIN (intensityValue STRONG) 300 s)
         else if wristError > WRIST_ANGLE_TOLERANCE then
           cout HapticWristCorrection (triggerHapticFeedback HAPTIC_3_PIN (intensityValue MEDIUM) 150 s)
         else
           cout HapticGoodForm (triggerPatternFeedback ALL_ZONES DOUBLE_PULSE LIGHT s))"

subsection \<open>The handlers of the four system states\<close>

definition readAllSensors :: "State \<Rightarrow> State" where
  "readAllSensors s = s"

text \<open>The six draws of \<^verbatim>\<open>printSensorData\<close> are taken left to right, as C++17 orders them.\<close>

definition printSensorData :: "State \<Rightarrow> State" where
  "printSensorData s =
     (let (r1, s1) = rand s;
          (r2, s2) = rand s1;
          (r3, s3) = rand s2;
          s4 = cout (SensorBNO055 (r1 mod 360) (r2 mod 360) (r3 mod 360)) s3;
          (r4, s5) = rand s4;
          (r5, s6) = rand s5;
          (r6, s7) = rand s6
      in cout (SensorMPU6050 (r4 mod 1000) (r5 mod 1000) (r6 mod 1000)) s7)"

definition checkButtons :: "State \<Rightarrow> State" where
  "checkButtons s =
     (let (currentTime, s1) = millis s
      in if currentTime - lastButtonCheck s1 < 50 then s1
         else s1\<lparr>lastButtonCheck := currentTime\<rparr>)"

definition handleStandby :: "State \<Rightarrow> State" where
  "handleStandby s =
     (let (currentTime, s1) = millis s;
          s2 = (if currentTime - lastBlink s1 > 1000
                then (cout StatusStandby s1)\<lparr>lastBlink := currentTime\<rparr> else s1);
          s3 = readAllSensors s2
      in if currentTime - lastPrint s3 > 2000
         then (printSensorData s3)\<lparr>lastPrint := currentTime\<rparr> else s3)"

definition handleCalibration :: "FreeThrowData \<Rightarrow> State \<Rightarrow> State" where
  "handleCalibration u s =
     (let s0 = cout CalibrationPrompt s;
          (detected, s1) = detectShotMotion s0
      in if detected then
           (let s2 = s1\<lparr>calibrationShots := calibrationShots s1 + 1\<rparr>;
                (shotData, s3) = analyzeShotForm u s2;
                s4 = s3\<lparr> elbowSum := elbowSum s3 + elbowAngle shotData,
                         wristSum := wristSum s3 + wristAngle shotData,
                         timingSum := timingSum s3 + releaseTiming shotData \<rparr>;
                s5 = cout (CalibrationShotRecorded (calibrationShots s4)) s4;
                s6 = triggerHapticFeedback HAPTIC_1_PIN (intensityValue STRONG) 100 s5
            in if calibrationShots s6 \<ge> 10 then
                 (let s7 = s6\<lparr> calibrationData := (calibrationData s6)
                                 \<lparr> avgElbowAngle := elbowSum s6 / 10.0,
                                   avgWristAngle := wristSum s6 / 10.0,
                                   avgReleaseTiming := timingSum s6 / 10.0,
                                   isValid := True \<rparr>,
                               isCalibrated := True \<rparr>;
                      s8 = cout CalibrationComplete s7;
                      s9 = cout (AverageElbowAngle (avgElbowAngle (calibrationData s8))) s8
                  in s9\<lparr> currentState := STANDBY, calibrationShots := 0,
                         elbowSum := 0, wristSum := 0, timingSum := 0 \<rparr>)
               else s6)
         else s1)"

definition handleTraining :: "FreeThrowData \<Rightarrow> State \<Rightarrow> State" where
  "handleTraining u s =
     (if \<not> isCalibrated s then (cout PleaseCalibrateFirst s)\<lparr>currentState := STANDBY\<rparr>
      else
        (let (detected, s1) = detectShotMotion s
         in if detected then
              (let (shotData, s2) = analyzeShotForm u s1;
                   s3 = provideHapticFeedback shotData s2;
                   s4 = s3\<lparr>shotCount := shotCount s3 + 1\<rparr>;
                   (t, s5) = millis s4
               in cout ShotAnalyzed (s5\<lparr>lastShotTime := t\<rparr>))
            else s1))"

definition handleDataReview :: "State \<Rightarrow> State" where
  "handleDataReview s =
     (let s1 = cout DataReviewMode s;
          s2 = cout (TotalShots (shotCount s1)) s1;
          s3 = (if isCalibrated s2
                then cout (CalibratedElbowAngle (avgElbowAngle (calibrationData s2))) s2 else s2)
      in s3\<lparr>currentState := STANDBY\<rparr>)"

definition monitorBattery :: "State \<Rightarrow> State" where
  "monitorBattery s =
     (let (currentTime, s1) = millis s
      in if currentTime - lastBatteryCheck s1 > 30000 then
           (let (r, s2) = rand s1;
                voltage = 3.7 + real (r mod 10) / 100.0;
                s3 = cout (BatteryVoltage voltage) s2;
                s4 = (if voltage < 3.2 then cout LowBatteryWarning s3 else s3)
            in s4\<lparr>lastBatteryCheck := currentTime\<rparr>)
         else s1)"

definition cycleSystemState :: "State \<Rightarrow> State" where
  "cycleSystemState s =
     (case currentState s of
        STANDBY \<Rightarrow> cout SwitchedToTraining (s\<lparr>currentState := TRAINING\<rparr>)
      | TRAINING \<Rightarrow> cout SwitchedToDataReview (s\<lparr>currentState := DATA_REVIEW\<rparr>)
      | DATA_REVIEW \<Rightarrow> cout SwitchedToStandby (s\<lparr>currentState := STANDBY\<rparr>)
      | CALIBRATION \<Rightarrow> s)"

definition recordShotOutcome :: "State \<Rightarrow> State" where
  "recordShotOutcome s =
     triggerHapticFeedback HAPTIC_2_PIN (intensityValue LIGHT) 100 (cout ShotOutcomeRecorded s)"

subsection \<open>The main loop\<close>

definition loop :: "FreeThrowData \<Rightarrow> State \<Rightarrow> State" where
  "loop u s =
     (let s1 = checkButtons s;
          s2 = (case currentState s1 of
                  STANDBY \<Rightarrow> handleStandby s1
                | CALIBRATION \<Rightarrow> handleCalibration u s1
                | TRAINING \<Rightarrow> handleTraining u s1
                | DATA_REVIEW \<Rightarrow> handleDataReview s1)
      in monitorBattery s2)"

subsection \<open>Notions used to state the properties\<close>

text \<open>
  The acceleration \<^verbatim>\<open>detectShotMotion\<close> simulates from a draw of \<^verbatim>\<open>rand()\<close>, the one its next
  call is going to simulate, and whether that call is going to report a shot.
\<close>

definition accelSample :: "nat \<Rightarrow> real" where
  "accelSample r = dadd (roundDouble 9.8) (ddiv (real (r mod 100)) 10.0)"

definition nextAccel :: "State \<Rightarrow> real" where
  "nextAccel s = accelSample (randSeq s (randCalls s))"

definition shotDetected :: "State \<Rightarrow> bool" where
  "shotDetected s = (\<bar>dsub (nextAccel s) (lastAccel s)\<bar> > 5.0)"

text \<open>
  The shot a call of \<^verbatim>\<open>handleCalibration\<close> records in state \<open>s\<close>, if it detects one: the
  value its local \<^verbatim>\<open>shotData\<close> receives.
\<close>

definition calibrationShot :: "FreeThrowData \<Rightarrow> State \<Rightarrow> FreeThrowData option" where
  "calibrationShot u s =
     (let (detected, s1) = detectShotMotion (cout CalibrationPrompt s)
      in if detected
         then Some (fst (analyzeShotForm u (s1\<lparr>calibrationShots := calibrationShots s1 + 1\<rparr>)))
         else None)"

text \<open>
  A run of the calibration mode: iterations of \<^verbatim>\<open>loop\<close> for as long as the system state is
  \<^verbatim>\<open>CALIBRATION\<close>. The list gives, for each iteration, the indeterminate contents of the
  local of \<^verbatim>\<open>analyzeShotForm\<close>; its length bounds the number of iterations observed.
\<close>

fun calibrationMode :: "FreeThrowData list \<Rightarrow> State \<Rightarrow> State" where
  "calibrationMode [] s = s"
| "calibrationMode (u # us) s =
     (if currentState s = CALIBRATION then calibrationMode us (loop u s) else s)"

text \<open>The shots recorded during that run, in order (\<^verbatim>\<open>loop\<close> runs the handler after \<^verbatim>\<open>checkButtons\<close>).\<close>

fun recordedShots :: "FreeThrowData list \<Rightarrow> State \<Rightarrow> FreeThrowData list" where
  "recordedShots [] s = []"
| "recordedShots (u # us) s =
     (if currentState s = CALIBRATION
      then (case calibrationShot u (checkButtons s) of None \<Rightarrow> [] | Some x \<Rightarrow> [x])
             @ recordedShots us (loop u s)
      else [])"

text \<open>
  Executions of the program after start-up. \<^verbatim>\<open>main\<close> only iterates \<^verbatim>\<open>loop\<close>;
  \<^verbatim>\<open>cycleSystemState\<close> and \<^verbatim>\<open>recordShotOutcome\<close> are defined in main.cpp and called from
  nowhere. They are admitted as events as well, so that a result about all executions also
  covers a button handler that would call them.
\<close>

datatype Event = LoopIteration FreeThrowData | CycleSystemState | RecordShotOutcome

fun dispatch :: "Event \<Rightarrow> State \<Rightarrow> State" where
  "dispatch (LoopIteration u) s = loop u s"
| "dispatch CycleSystemState s = cycleSystemState s"
| "dispatch RecordShotOutcome s = recordShotOutcome s"

fun execute :: "Event list \<Rightarrow> State \<Rightarrow> State" where
  "execute [] s = s"
| "execute (e # es) s = execute es (dispatch e s)"

text \<open>Arithmetic mean and population standard deviation, as the specification words them.\<close>

definition mean :: "real list \<Rightarrow> real" where
  "mean xs = sum_list xs / real (length xs)"

definition popStdDev :: "real list \<Rightarrow> real" where
  "popStdDev xs = sqrt (sum_list (map (\<lambda>x. (x - mean xs)\<^sup>2) xs) / real (length xs))"

text \<open>
  The value \<^verbatim>\<open>analyzeShotForm\<close> returns when its five draws are entries \<open>n\<close> to \<open>n + 4\<close> of the
  sequence \<open>rs\<close> and its local started as \<open>u\<close>.
\<close>

definition simulatedShot :: "FreeThrowData \<Rightarrow> (nat \<Rightarrow> nat) \<Rightarrow> nat \<Rightarrow> FreeThrowData" where
  "simulatedShot u rs n =
     u\<lparr> elbowAngle := 90.0 + real (rs n mod 20) - 10,
        wristAngle := 45.0 + real (rs (n + 1) mod 10) - 5,
        releaseTiming := 1.5 + real (rs (n + 2) mod 100) / 1000.0,
        followThrough := 0.8 + real (rs (n + 3) mod 40) / 100.0,
        peakAcceleration := 15.0 + real (rs (n + 4) mod 10) \<rparr>"

text \<open>
  The selection policy for feedback as the specification words it: elbow beyond tolerance,
  else wrist beyond tolerance, else the pattern for correct form.
\<close>

definition selectedFeedback :: "FreeThrowData \<Rightarrow> CalibrationData \<Rightarrow> HapticCall" where
  "selectedFeedback shot cal =
     (if \<bar>elbowAngle shot - avgElbowAngle cal\<bar> > ELBOW_ANGLE_TOLERANCE
      then TriggerHapticFeedback HAPTIC_1_PIN (intensityValue STRONG) 300
      else if \<bar>wristAngle shot - avgWristAngle cal\<bar> > WRIST_ANGLE_TOLERANCE
      then TriggerHapticFeedback HAPTIC_3_PIN (intensityValue MEDIUM) 150
      else TriggerPatternFeedback ALL_ZONES DOUBLE_PULSE LIGHT)"

section \<open>The haptic controller\<close>

subsection \<open>The motor record and its constructors (haptic.h)\<close>

record HapticMotor =
  pin :: int
  currentIntensity :: int
  isActive :: bool
  startTime :: ulong
  duration :: ulong
  pattern :: HapticPattern

definition HapticMotor_default :: HapticMotor where
  "HapticMotor_default =
     \<lparr> pin = 0, currentIntensity = 0, isActive = False, startTime = 0, duration = 0,
       pattern = NONE \<rparr>"

definition HapticMotor_pin :: "int \<Rightarrow> HapticMotor" where
  "HapticMotor_pin p =
     \<lparr> pin = p, currentIntensity = 0, isActive = False, startTime = 0, duration = 0,
       pattern = NONE \<rparr>"

subsection \<open>The controller operations\<close>

text \<open>
  haptic.h declares the operations of the controller (\<^verbatim>\<open>triggerPatternFeedback\<close>,
  \<^verbatim>\<open>updateHapticFeedback\<close>, \<^verbatim>\<open>emergencyStop\<close>, \<^verbatim>\<open>isSystemOverheating\<close>) and the repository
  defines none of them. The definitions of this subsection follow sections 3 and 4.5 of the
  specification instead. The controller state is the global vector \<^verbatim>\<open>motors\<close>; the clock
  and the reading of the overheat guard at the time of a call are arguments of the call.
\<close>

text \<open>
  Modelled from the spec: the body of the controller that stores an intensity is missing.
  Section 3 gives \<open>currentIntensity\<close> the range 0 to 255 as an invariant and section 4.5 has
  \<open>update\<close> clamp to it; a requested or computed intensity is stored clamped.
\<close>

definition clampIntensity :: "int \<Rightarrow> int" where
  "clampIntensity v = (if v < 0 then 0 else if v > 255 then 255 else v)"

text \<open>
  Modelled from the spec: the mapping from zones to motors is missing. A zone selects motors
  by pin, after the comments of haptic.h (upper arm 25, lower arm 26, wrist 27);
  \<^verbatim>\<open>ALL_ZONES\<close> selects every motor.
\<close>

fun inZone :: "FeedbackZone \<Rightarrow> HapticMotor \<Rightarrow> bool" where
  "inZone ALL_ZONES m = True"
| "inZone UPPER_ARM m = (pin m = HAPTIC_1_PIN)"
| "inZone LOWER_ARM m = (pin m = HAPTIC_2_PIN)"
| "inZone WRIST m = (pin m = HAPTIC_3_PIN)"

text \<open>
  Modelled from the spec: what forcing a motor to Idle does is missing. An idle motor is
  inactive, at intensity 0, with no pattern, as the constructors leave it.
\<close>

definition motorIdle :: "HapticMotor \<Rightarrow> HapticMotor" where
  "motorIdle m = m\<lparr>currentIntensity := 0, isActive := False, pattern := NONE\<rparr>"

text \<open>
  Modelled from the spec: the state Idle of the per-motor state machine of section 4.5, as a
  predicate on the motor record.
\<close>

definition isIdle :: "HapticMotor \<Rightarrow> bool" where
  "isIdle m = (\<not> isActive m \<and> currentIntensity m = 0 \<and> pattern m = NONE)"

text \<open>
  Modelled from the spec: the body of \<^verbatim>\<open>emergencyStop\<close> is missing. Section 4.5:
  \<open>emergencyStop()\<close> forces all motors to Idle.
\<close>

definition emergencyStop :: "HapticMotor list \<Rightarrow> HapticMotor list" where
  "emergencyStop ms = map motorIdle ms"

text \<open>
  Modelled from the spec: the body of the trigger operation is missing. Section 4.5:
  \<open>trigger(zone, pattern, intensity, duration)\<close> starts the pattern on the motors of the zone;
  the overheat guard is checked before any new trigger is applied, and a tripped guard
  rejects the trigger.
\<close>

definition trigger ::
    "bool \<Rightarrow> ulong \<Rightarrow> FeedbackZone \<Rightarrow> HapticPattern \<Rightarrow> int \<Rightarrow> ulong \<Rightarrow> HapticMotor list
       \<Rightarrow> HapticMotor list" where
  "trigger overheating now z p i d ms =
     (if overheating then ms
      else map (\<lambda>m. if inZone z m
                     then m\<lparr> pattern := p, currentIntensity := clampIntensity i,
                             isActive := True, startTime := now, duration := d \<rparr>
                     else m) ms)"

text \<open>
  Modelled from the spec: the body of \<^verbatim>\<open>updateHapticFeedback\<close> is missing. Section 4.5:
  \<open>update(now)\<close> evaluates the overheat guard and stops every motor when it is tripped;
  otherwise it advances each active motor by the elapsed time, clamps its intensity to 0 to
  255 and deactivates it once its duration has elapsed. The specification does not fix the
  intensity a pattern has at a given phase: it is the parameter \<open>level\<close>, any function of
  the motor and the elapsed time.
\<close>

definition updateMotor :: "(HapticMotor \<Rightarrow> ulong \<Rightarrow> int) \<Rightarrow> ulong \<Rightarrow> HapticMotor \<Rightarrow> HapticMotor" where
  "updateMotor level now m =
     (if \<not> isActive m then m
      else if now - startTime m \<ge> duration m then motorIdle m
      else m\<lparr>currentIntensity := clampIntensity (level m (now - startTime m))\<rparr>)"

text \<open>
  Modelled from the spec: \<open>update(now)\<close> over all motors, the guard evaluated first (section
  4.5: the guard is evaluated on every update).
\<close>

definition update ::
    "(HapticMotor \<Rightarrow> ulong \<Rightarrow> int) \<Rightarrow> bool \<Rightarrow> ulong \<Rightarrow> HapticMotor list \<Rightarrow> HapticMotor list" where
  "update level overheating now ms =
     (if overheating then emergencyStop ms else map (updateMotor level now) ms)"

text \<open>Sequences of calls; each call carries the guard's reading and the clock's.\<close>

datatype HapticOp =
    Trigger bool ulong FeedbackZone HapticPattern int ulong
  | Update bool ulong

fun guardTripped :: "HapticOp \<Rightarrow> bool" where
  "guardTripped (Trigger h now z p i d) = h"
| "guardTripped (Update h now) = h"

fun applyOp :: "(HapticMotor \<Rightarrow> ulong \<Rightarrow> int) \<Rightarrow> HapticOp \<Rightarrow> HapticMotor list \<Rightarrow> HapticMotor list" where
  "applyOp level (Trigger h now z p i d) ms = trigger h now z p i d ms"
| "applyOp level (Update h now) ms = update level h now ms"

fun applyOps :: "(HapticMotor \<Rightarrow> ulong \<Rightarrow> int) \<Rightarrow> HapticOp list \<Rightarrow> HapticMotor list \<Rightarrow> HapticMotor list" where
  "applyOps level [] ms = ms"
| "applyOps level (op # ops) ms = applyOps level ops (applyOp level op ms)"

text \<open>The range section 3 of the specification gives the intensity of a motor.\<close>

definition intensityInRange :: "HapticMotor \<Rightarrow> bool" where
  "intensityInRange m = (0 \<le> currentIntensity m \<and> currentIntensity m \<le> 255)"

section \<open>Example inputs\<close>

text \<open>
  A sequence of \<^verbatim>\<open>rand()\<close> results under which every call of \<^verbatim>\<open>detectShotMotion\<close> made at a
  multiple of six draws sees the samples of the draws 99 and 0 in turn (19.7 and 9.8, up to
  rounding), and successive analysed shots have elbow angles 99 and 80; a clock that stays
  at 0; and some contents for the uninitialised local.
\<close>

definition exampleRand :: "nat \<Rightarrow> nat" where
  "exampleRand n = (if n mod 12 = 0 then 99 else if n mod 12 = 1 then 19 else 0)"

definition exampleClock :: "nat \<Rightarrow> ulong" where
  "exampleClock n = 0"

definition exampleUninit :: FreeThrowData where
  "exampleUninit =
     \<lparr> elbowAngle = 0, wristAngle = 0, releaseTiming = 0, followThrough = 0,
       bodyBalance = 0, wasSuccessful = False, shotDuration = 0, peakAcceleration = 0 \<rparr>"

text \<open>The program state at start-up with the system put in calibration mode.\<close>

definition firstRunStart :: State where
  "firstRunStart = (initialState exampleRand exampleClock)\<lparr>currentState := CALIBRATION\<rparr>"

definition tenIterations :: "FreeThrowData list" where
  "tenIterations =
     [exampleUninit, exampleUninit, exampleUninit, exampleUninit, exampleUninit,
      exampleUninit, exampleUninit, exampleUninit, exampleUninit, exampleUninit]"

text \<open>The start-up state, and the start-up state with the system put in training mode.\<close>

definition startUp :: State where
  "startUp = initialState exampleRand exampleClock"

definition trainingStart :: State where
  "trainingStart = startUp\<lparr>currentState := TRAINING\<rparr>"

text \<open>A calibrated system in training mode: the state the first run leaves, in training mode.\<close>

definition calibratedTraining :: State where
  "calibratedTraining = (calibrationMode tenIterations firstRunStart)\<lparr>currentState := TRAINING\<rparr>"

text \<open>The state in which a second calibration run starts after the first has completed.\<close>

definition secondRunStart :: State where
  "secondRunStart = (calibrationMode tenIterations firstRunStart)\<lparr>currentState := CALIBRATION\<rparr>"

text \<open>Other contents for the uninitialised local of \<^verbatim>\<open>analyzeShotForm\<close>.\<close>

definition otherUninit :: FreeThrowData where
  "otherUninit =
     \<lparr> elbowAngle = 1, wristAngle = 2, releaseTiming = 3, followThrough = 4,
       bodyBalance = 5, wasSuccessful = True, shotDuration = 6, peakAcceleration = 7 \<rparr>"

definition exampleEvents :: "Event list" where
  "exampleEvents = [LoopIteration exampleUninit, RecordShotOutcome, CycleSystemState]"

definition twoIterations :: "FreeThrowData list" where
  "twoIterations = [exampleUninit, exampleUninit]"

text \<open>Example inputs for the controller: three fresh motors, a level function, two call sequences.\<close>

definition exampleMotors :: "HapticMotor list" where
  "exampleMotors = [HapticMotor_pin 25, HapticMotor_pin 26, HapticMotor_pin 27]"

definition exampleLevel :: "HapticMotor \<Rightarrow> ulong \<Rightarrow> int" where
  "exampleLevel m elapsed = 2 * currentIntensity m + 100"

definition exampleCalls :: "HapticOp list" where
  "exampleCalls =
     [Trigger False 0 ALL_ZONES CONTINUOUS 300 1000, Update False 10,
      Trigger False 20 WRIST DOUBLE_PULSE (- 5) 150, Update False 30]"

definition activeMotors :: "HapticMotor list" where
  "activeMotors = applyOps exampleLevel exampleCalls exampleMotors"

definition overheatedCalls :: "HapticOp list" where
  "overheatedCalls =
     [Trigger True 40 ALL_ZONES CONTINUOUS 255 1000, Update True 50,
      Trigger True 60 UPPER_ARM SINGLE_PULSE 128 300]"

section \<open>Rounding to double precision\<close>

text \<open>
  Within a binade the rounding is the rounding of the significand to an integer; it moves
  a normal value by at most the fraction \<open>1 / 2 ^ 53\<close> of its magnitude.
\<close>

lemma bitlen_scaled:
  fixes x :: real
  assumes "2 powi e \<le> x" and "x < 2 powi (e + 1)" and "- int k \<le> e"
  shows "bitlen \<lfloor>x * 2 ^ k\<rfloor> = e + int k + 1"
proof -
  define n where "n = nat (e + int k)"
  have e: "e = int n - int k"
    using assms(3) by (simp add: n_def)
  have p: "(2::real) powi e * 2 ^ k = 2 ^ n"
    unfolding e by (simp add: power_int_diff)
  have p1: "(2::real) powi (e + 1) * 2 ^ k = 2 ^ (n + 1)"
    using p by (simp add: power_int_add)
  have lo: "(2::real) ^ n \<le> x * 2 ^ k"
    using assms(1) p by (metis mult_right_mono zero_le_numeral zero_le_power)
  have hi: "x * 2 ^ k < (2::real) ^ (n + 1)"
    using assms(2) p1 by (metis mult_strict_right_mono zero_less_numeral zero_less_power)
  have flo: "(2::int) ^ n \<le> \<lfloor>x * 2 ^ k\<rfloor>"
    using lo by (simp add: le_floor_iff)
  have fhi: "\<lfloor>x * 2 ^ k\<rfloor> < (2::int) ^ (n + 1)"
    using hi by (simp add: floor_less_iff)
  have "bitlen \<lfloor>x * 2 ^ k\<rfloor> = int n + 1"
  proof (rule antisym)
    show "bitlen \<lfloor>x * 2 ^ k\<rfloor> \<le> int n + 1"
      using fhi by (simp add: bitlen_le_iff_power nat_add_distrib)
    show "int n + 1 \<le> bitlen \<lfloor>x * 2 ^ k\<rfloor>"
      using flo by (simp add: bitlen_ge_iff_power nat_add_distrib)
  qed
  then show ?thesis
    by (simp add: e)
qed

lemma binade_eq:
  assumes "2 powi e \<le> x" and "x < 2 powi (e + 1)" and "- 1074 \<le> e"
  shows "binade x = e"
  unfolding binade_def using bitlen_scaled [OF assms(1,2), of 1074] assms(3) by simp

lemma roundDouble_at:
  assumes "2 powi e \<le> \<bar>x\<bar>" and "\<bar>x\<bar> < 2 powi (e + 1)" and "- 1022 \<le> e"
  shows "roundDouble x = 2 powi (e - 52) * of_int (roundEven (x / 2 powi (e - 52)))"
proof -
  have "binade \<bar>x\<bar> = e"
    using assms by (intro binade_eq) simp_all
  moreover have pos: "(0::real) < 2 powi e"
    by (simp add: zero_less_power_int)
  have "0 < \<bar>x\<bar>"
    using pos assms(1) by linarith
  then have "x \<noteq> 0"
    by simp
  ultimately show ?thesis
    using assms(3) by (simp add: roundDouble_def Let_def max_def)
qed

text \<open>
  The literal 9.8 as a double, and the samples of the draws 0 and 99: the first is that
  double itself, the second the double next above 19.7.
\<close>

lemma nine_eight: "roundDouble (49 / 5) = 2758454771764429 / 281474976710656"
  by (subst roundDouble_at [of 3]) (simp_all add: roundEven_def)

lemma round_low: "roundDouble (2758454771764429 / 281474976710656) = 2758454771764429 / 281474976710656"
  by (subst roundDouble_at [of 3]) (simp_all add: roundEven_def)

lemma sample_0: "accelSample 0 = 2758454771764429 / 281474976710656"
  by (simp add: accelSample_def dadd_def ddiv_def nine_eight roundDouble_def[of 0] round_low)

lemma round_99: "roundDouble (99 / 10) = 5573204538870989 / 562949953421312"
  by (subst roundDouble_at [of 3]) (simp_all add: roundEven_def)

lemma round_high: "roundDouble (11090114082399847 / 562949953421312) = 1386264260299981 / 70368744177664"
  by (subst roundDouble_at [of 4]) (simp_all add: roundEven_def)

lemma sample_99: "accelSample 99 = 1386264260299981 / 70368744177664"
  by (simp add: accelSample_def dadd_def ddiv_def nine_eight round_99 round_high)

text \<open>The relative error of the rounding, and the range of the samples.\<close>

lemma roundEven_near: "\<bar>of_int (roundEven z) - z\<bar> \<le> 1 / 2"
proof -
  have "of_int \<lfloor>z\<rfloor> \<le> z" and "z < of_int \<lfloor>z\<rfloor> + 1"
    by linarith+
  then show ?thesis
    by (auto simp add: roundEven_def Let_def)
qed

lemma scaled_bounds:
  fixes x :: real
  assumes "1 \<le> x * 2 ^ k"
  shows "2 powi (bitlen \<lfloor>x * 2 ^ k\<rfloor> - int k - 1) \<le> x"
    and "x < 2 powi (bitlen \<lfloor>x * 2 ^ k\<rfloor> - int k - 1 + 1)"
proof -
  define m where "m = \<lfloor>x * 2 ^ k\<rfloor>"
  have m: "0 < m"
    using assms by (simp add: m_def)
  define b where "b = nat (bitlen m - 1)"
  have bl: "bitlen m = int b + 1"
    using m by (simp add: b_def bitlen_alt_def)
  have lo: "2 ^ b \<le> m" and hi: "m < 2 ^ (b + 1)"
    using bitlen_bounds [OF m] by (simp_all add: bl b_def [symmetric] nat_add_distrib)
  have mx: "real_of_int m \<le> x * 2 ^ k" and xm: "x * 2 ^ k < real_of_int m + 1"
    unfolding m_def by linarith+
  have "real_of_int (2 ^ b) \<le> real_of_int m"
    using lo by (simp only: of_int_le_iff)
  then have "(2::real) ^ b \<le> real_of_int m"
    by simp
  then have "(2::real) ^ b \<le> x * 2 ^ k"
    using mx by linarith
  then have "(2::real) ^ b / 2 ^ k \<le> x"
    by (simp add: divide_le_eq)
  moreover have e1: "(2::real) powi (int b - int k) = 2 ^ b / 2 ^ k"
    by (simp add: power_int_diff)
  ultimately show "2 powi (bitlen \<lfloor>x * 2 ^ k\<rfloor> - int k - 1) \<le> x"
    by (simp add: m_def [symmetric] bl)
  have "m + 1 \<le> 2 ^ (b + 1)"
    using hi by simp
  then have "real_of_int (m + 1) \<le> real_of_int (2 ^ (b + 1))"
    by (simp only: of_int_le_iff)
  then have "real_of_int m + 1 \<le> (2::real) ^ (b + 1)"
    by simp
  then have "x * 2 ^ k < (2::real) ^ (b + 1)"
    using xm by linarith
  then have "x < (2::real) ^ (b + 1) / 2 ^ k"
    by (simp add: less_divide_eq)
  moreover have "(2::real) powi (int b + 1 - int k) = 2 ^ (b + 1) / 2 ^ k"
  proof -
    have "(2::real) powi (int b + 1 - int k) = 2 powi (int b - int k + 1)"
      by (simp add: algebra_simps)
    also have "\<dots> = 2 powi (int b - int k) * 2"
      by (simp add: power_int_add)
    finally show ?thesis
      by (simp add: e1)
  qed
  ultimately show "x < 2 powi (bitlen \<lfloor>x * 2 ^ k\<rfloor> - int k - 1 + 1)"
    by (simp add: m_def [symmetric] bl algebra_simps)
qed

lemma roundDouble_near:
  assumes "2 powi (- 1022) \<le> \<bar>x\<bar>"
  shows "\<bar>roundDouble x - x\<bar> \<le> \<bar>x\<bar> / 2 ^ 53"
proof -
  define e where "e = bitlen \<lfloor>\<bar>x\<bar> * 2 ^ 1074\<rfloor> - int 1074 - 1"
  have "(2::real) powi (- 1022) * 2 ^ 1074 = 2 powi (- 1022) * 2 powi 1074"
    by simp
  also have "\<dots> = 2 powi 52"
    by (simp flip: power_int_add)
  finally have "(2::real) powi (- 1022) * 2 ^ 1074 = 2 powi 52" .
  moreover have "(2::real) powi (- 1022) * 2 ^ 1074 \<le> \<bar>x\<bar> * 2 ^ 1074"
    using assms by (intro mult_right_mono) simp_all
  moreover have "(1::real) \<le> 2 powi 52"
    by simp
  ultimately have one: "1 \<le> \<bar>x\<bar> * 2 ^ 1074"
    by linarith
  have lo: "2 powi e \<le> \<bar>x\<bar>" and hi: "\<bar>x\<bar> < 2 powi (e + 1)"
    using scaled_bounds [OF one] by (simp_all add: e_def)
  have ge: "- 1022 \<le> e"
  proof (rule ccontr)
    assume "\<not> - 1022 \<le> e"
    then have "e + 1 \<le> - 1022"
      by simp
    then have "(2::real) powi (e + 1) \<le> 2 powi (- 1022)"
      by (intro power_int_increasing) simp_all
    with assms hi show False
      by linarith
  qed
  define q :: real where "q = 2 powi (e - 52)"
  have q: "0 < q"
    by (simp add: q_def zero_less_power_int)
  have r: "roundDouble x = q * of_int (roundEven (x / q))"
    unfolding q_def by (rule roundDouble_at [OF lo hi ge])
  have "q * of_int (roundEven (x / q)) - x = q * (of_int (roundEven (x / q)) - x / q)"
    using q by (simp add: algebra_simps)
  then have "\<bar>q * of_int (roundEven (x / q)) - x\<bar> = \<bar>q\<bar> * \<bar>of_int (roundEven (x / q)) - x / q\<bar>"
    by (simp only: abs_mult)
  also have "\<dots> = q * \<bar>of_int (roundEven (x / q)) - x / q\<bar>"
    using q by simp
  also have "\<dots> \<le> q * (1 / 2)"
    using q roundEven_near [of "x / q"] by (intro mult_left_mono) simp_all
  also have "q * (1 / 2) = 2 powi e / 2 ^ 53"
  proof -
    have "e - 52 = (e - 53) + 1"
      by simp
    then have "(2::real) powi (e - 52) = 2 powi ((e - 53) + 1)"
      by (simp only:)
    also have "\<dots> = 2 powi (e - 53) * 2 powi 1"
      by (rule power_int_add) simp
    finally have "(2::real) powi (e - 52) = 2 powi (e - 53) * 2"
      by simp
    moreover have "(2::real) powi (e - 53) = 2 powi e / 2 ^ 53"
      by (simp add: power_int_diff)
    ultimately show ?thesis
      by (simp add: q_def)
  qed
  also have "\<dots> \<le> \<bar>x\<bar> / 2 ^ 53"
    using lo by (simp add: divide_right_mono)
  finally show ?thesis
    by (simp add: r)
qed

lemma roundDouble_within:
  assumes "1 / 16 \<le> x"
  shows "x * (999 / 1000) \<le> roundDouble x" and "roundDouble x \<le> x * (1001 / 1000)"
proof -
  have "(2::real) powi (- 1022) \<le> 2 powi (- 4)"
    by (intro power_int_increasing) simp_all
  also have "\<dots> = 1 / 16"
    by (simp add: power_int_minus field_simps)
  finally have "2 powi (- 1022) \<le> \<bar>x\<bar>"
    using assms by linarith
  then have "\<bar>roundDouble x - x\<bar> \<le> \<bar>x\<bar> / 2 ^ 53"
    by (rule roundDouble_near)
  moreover have "\<bar>x\<bar> / 2 ^ 53 \<le> x / 1000"
    using assms by (simp add: field_simps)
  ultimately have "\<bar>roundDouble x - x\<bar> \<le> x / 1000"
    by linarith
  then show "x * (999 / 1000) \<le> roundDouble x" and "roundDouble x \<le> x * (1001 / 1000)"
    by linarith+
qed

lemma accelSample_bounds: "9 < accelSample r" "accelSample r < 20"
proof -
  define k where "k = r mod 100"
  have k: "real k \<le> 99"
    unfolding k_def using mod_less_divisor [of 100 r] by linarith
  define b where "b = roundDouble (real k / 10)"
  have b: "0 \<le> b \<and> b \<le> 10"
  proof (cases "k = 0")
    case True
    then show ?thesis
      by (simp add: b_def roundDouble_def)
  next
    case False
    then have "1 \<le> real k"
      by simp
    then have "1 / 16 \<le> real k / 10"
      by simp
    from roundDouble_within [OF this] k show ?thesis
      unfolding b_def by (auto intro: order_trans)
  qed
  define c :: real where "c = 2758454771764429 / 281474976710656"
  have c: "9 < c * (999 / 1000)" "c \<le> 981 / 100"
    by (simp_all add: c_def)
  have b0: "0 \<le> b" and b1: "b \<le> 10"
    using b by simp_all
  have s: "accelSample r = roundDouble (c + b)"
    by (simp add: accelSample_def dadd_def ddiv_def nine_eight b_def k_def c_def)
  have "0 < c"
    by (simp add: c_def)
  then have "1 / 16 \<le> c + b"
    using b0 c(1) by (simp add: c_def)
  note w = roundDouble_within [OF this]
  have "c * (999 / 1000) \<le> (c + b) * (999 / 1000)"
    using b0 by simp
  with w(1) c(1) show "9 < accelSample r"
    unfolding s by linarith
  have "(c + b) * (1001 / 1000) \<le> (981 / 100 + 10) * (1001 / 1000)"
    using b1 c(2) by (intro mult_right_mono) simp_all
  moreover have "(981 / 100 + 10) * (1001 / 1000) < (20::real)"
    by simp
  ultimately show "accelSample r < 20"
    using w(2) unfolding s by linarith
qed

text \<open>
  Samples at least 6 apart are reported as a shot whatever the rounding; so is every first
  sample, the remembered one being 0; so are the samples of the example sequence.
\<close>

lemma far_apart_detected:
  assumes "6 \<le> \<bar>a - b\<bar>"
  shows "5 < \<bar>dsub a b\<bar>"
proof -
  have "(2::real) powi (- 1022) \<le> 2 powi 0"
    by (intro power_int_increasing) simp_all
  then have "2 powi (- 1022) \<le> \<bar>a - b\<bar>"
    using assms by simp
  then have "\<bar>roundDouble (a - b) - (a - b)\<bar> \<le> \<bar>a - b\<bar> / 2 ^ 53"
    by (rule roundDouble_near)
  moreover have "\<bar>a - b\<bar> / 2 ^ 53 \<le> \<bar>a - b\<bar> / 12"
    by (intro divide_left_mono) simp_all
  ultimately have "\<bar>roundDouble (a - b) - (a - b)\<bar> \<le> \<bar>a - b\<bar> / 12"
    by linarith
  moreover have "\<bar>a - b\<bar> \<le> \<bar>roundDouble (a - b)\<bar> + \<bar>roundDouble (a - b) - (a - b)\<bar>"
    by (simp add: abs_if)
  ultimately have "\<bar>a - b\<bar> * (11 / 12) \<le> \<bar>roundDouble (a - b)\<bar>"
    by simp
  moreover have "5 < \<bar>a - b\<bar> * (11 / 12)"
    using assms by simp
  ultimately show ?thesis
    unfolding dsub_def by (rule less_le_trans [rotated])
qed

lemma first_call_detected: "5 < \<bar>dsub (accelSample r) 0\<bar>"
  using accelSample_bounds(1) [of r] by (intro far_apart_detected) simp

lemma example_detections:
  "5 < \<bar>dsub (accelSample 99) 0\<bar>"
  "5 < \<bar>dsub (accelSample 0) (accelSample 99)\<bar>"
  "5 < \<bar>dsub (accelSample 99) (accelSample 0)\<bar>"
  by (rule first_call_detected)
    (rule far_apart_detected, simp add: sample_0 sample_99)+

text \<open>The samples of the draws 14 and 64, and their difference as the machine computes it.\<close>

lemma sample_14: "accelSample 14 = 6305039478318695 / 562949953421312"
proof -
  have q: "roundDouble (7 / 5) = 3152519739159347 / 2251799813685248"
    by (subst roundDouble_at [of 0]) (simp_all add: roundEven_def)
  have s: "roundDouble (25220157913274779 / 2251799813685248)
      = 6305039478318695 / 562949953421312"
    by (subst roundDouble_at [of 3]) (simp_all add: roundEven_def)
  show ?thesis
    by (simp add: accelSample_def dadd_def ddiv_def nine_eight q s)
qed

lemma sample_64: "accelSample 64 = 1139973655678157 / 70368744177664"
proof -
  have q: "roundDouble (32 / 5) = 3602879701896397 / 562949953421312"
    by (subst roundDouble_at [of 2]) (simp_all add: roundEven_def)
  have s: "roundDouble (9119789245425255 / 562949953421312)
      = 1139973655678157 / 70368744177664"
    by (subst roundDouble_at [of 4]) (simp_all add: roundEven_def)
  show ?thesis
    by (simp add: accelSample_def dadd_def ddiv_def nine_eight q s)
qed

lemma border_difference:
  "dsub (accelSample 64) (accelSample 14) = 2814749767106561 / 562949953421312"
  unfolding dsub_def sample_14 sample_64
  by (subst roundDouble_at [of 2]) (simp_all add: roundEven_def)

section \<open>Closed forms of the operations of main.cpp\<close>

text \<open>
  Each operation as a single update of the state it is called in. The proofs below and the
  evaluation of the examples rest on these equations instead of the nested bindings of the
  definitions.
\<close>

lemma detectShotMotion_eq:
  "detectShotMotion s =
     (shotDetected s, s\<lparr>randCalls := randCalls s + 1, lastAccel := nextAccel s\<rparr>)"
  by (simp add: detectShotMotion_def rand_def nextAccel_def shotDetected_def accelSample_def Let_def)

lemma analyzeShotForm_eq:
  "analyzeShotForm u s =
     (simulatedShot u (randSeq s) (randCalls s), s\<lparr>randCalls := randCalls s + 5\<rparr>)"
proof -
  have e: "randCalls s + 3 = Suc (Suc (Suc (randCalls s)))"
    "randCalls s + 4 = Suc (Suc (Suc (Suc (randCalls s))))"
    by simp_all
  show ?thesis
    by (simp add: analyzeShotForm_def simulatedShot_def rand_def Let_def e)
qed

lemma calibrationShot_eq:
  "calibrationShot u s =
     (if shotDetected s
      then Some (simulatedShot u (randSeq s) (randCalls s + 1)) else None)"
  by (simp add: calibrationShot_def detectShotMotion_eq analyzeShotForm_eq cout_def nextAccel_def shotDetected_def)

lemma checkButtons_eq:
  "checkButtons s =
     (if clockSeq s (clockCalls s) - lastButtonCheck s < 50
      then s\<lparr>clockCalls := clockCalls s + 1\<rparr>
      else s\<lparr>clockCalls := clockCalls s + 1, lastButtonCheck := clockSeq s (clockCalls s)\<rparr>)"
  by (simp add: checkButtons_def millis_def Let_def)

lemma monitorBattery_eq:
  "monitorBattery s =
     (if clockSeq s (clockCalls s) - lastBatteryCheck s > 30000
      then s\<lparr> clockCalls := clockCalls s + 1, randCalls := randCalls s + 1,
              console := console s @
                 [BatteryVoltage (3.7 + real (randSeq s (randCalls s) mod 10) / 100)]
                 @ (if 3.7 + real (randSeq s (randCalls s) mod 10) / 100 < (3.2::real)
                    then [LowBatteryWarning] else []),
              lastBatteryCheck := clockSeq s (clockCalls s) \<rparr>
      else s\<lparr>clockCalls := clockCalls s + 1\<rparr>)"
  by (simp add: monitorBattery_def millis_def rand_def cout_def Let_def)

lemma handleCalibration_eq:
  "handleCalibration u s =
     (if shotDetected s then
        (if calibrationShots s + 1 \<ge> 10 then
           s\<lparr> console := console s @
                  [CalibrationPrompt, CalibrationShotRecorded (calibrationShots s + 1),
                   CalibrationComplete,
                   AverageElbowAngle
                     ((elbowSum s + elbowAngle (simulatedShot u (randSeq s) (randCalls s + 1))) / 10)],
                randCalls := randCalls s + 6,
                lastAccel := nextAccel s,
                hapticCalls := hapticCalls s @ [TriggerHapticFeedback 25 255 100],
                calibrationData := (calibrationData s)
                  \<lparr> avgElbowAngle :=
                      (elbowSum s + elbowAngle (simulatedShot u (randSeq s) (randCalls s + 1))) / 10,
                    avgWristAngle :=
                      (wristSum s + wristAngle (simulatedShot u (randSeq s) (randCalls s + 1))) / 10,
                    avgReleaseTiming :=
                      (timingSum s + releaseTiming (simulatedShot u (randSeq s) (randCalls s + 1))) / 10,
                    isValid := True \<rparr>,
                isCalibrated := True, currentState := STANDBY, calibrationShots := 0,
                elbowSum := 0, wristSum := 0, timingSum := 0 \<rparr>
         else
           s\<lparr> console := console s @
                  [CalibrationPrompt, CalibrationShotRecorded (calibrationShots s + 1)],
                randCalls := randCalls s + 6,
                lastAccel := nextAccel s,
                hapticCalls := hapticCalls s @ [TriggerHapticFeedback 25 255 100],
                calibrationShots := calibrationShots s + 1,
                elbowSum := elbowSum s + elbowAngle (simulatedShot u (randSeq s) (randCalls s + 1)),
                wristSum := wristSum s + wristAngle (simulatedShot u (randSeq s) (randCalls s + 1)),
                timingSum := timingSum s + releaseTiming (simulatedShot u (randSeq s) (randCalls s + 1)) \<rparr>)
      else s\<lparr> console := console s @ [CalibrationPrompt], randCalls := randCalls s + 1,
              lastAccel := nextAccel s \<rparr>)"
proof (cases "shotDetected s")
  case False
  then show ?thesis
    by (simp add: handleCalibration_def detectShotMotion_eq cout_def nextAccel_def shotDetected_def)
next
  case det: True
  show ?thesis
  proof (cases "calibrationShots s + 1 \<ge> 10")
    case True
    with det show ?thesis
      by (simp add: handleCalibration_def detectShotMotion_eq analyzeShotForm_eq cout_def
          triggerHapticFeedback_def nextAccel_def shotDetected_def HAPTIC_1_PIN_def)
  next
    case False
    with det show ?thesis
      by (simp add: handleCalibration_def detectShotMotion_eq analyzeShotForm_eq cout_def
          triggerHapticFeedback_def nextAccel_def shotDetected_def HAPTIC_1_PIN_def)
  qed
qed

lemma loop_calibration:
  "currentState s = CALIBRATION \<Longrightarrow> loop u s = monitorBattery (handleCalibration u (checkButtons s))"
  by (simp add: loop_def checkButtons_eq Let_def)

text \<open>The equations that evaluate a calibration run on the example inputs.\<close>

lemmas run_simps = loop_calibration checkButtons_eq monitorBattery_eq handleCalibration_eq
  calibrationShot_eq nextAccel_def shotDetected_def example_detections simulatedShot_def
  initialState_def zeroCalibration_def
  exampleRand_def exampleClock_def exampleUninit_def firstRunStart_def tenIterations_def

section \<open>One iteration of a calibration run\<close>

text \<open>
  What an iteration of the loop does to the profile and to the accumulators of
  \<^verbatim>\<open>handleCalibration\<close>, by cases: no shot detected, a shot before the tenth, the tenth shot.
\<close>

lemma calibrationMode_left: "currentState s \<noteq> CALIBRATION \<Longrightarrow> calibrationMode us s = s"
  by (cases us) simp_all

lemma recordedShots_left: "currentState s \<noteq> CALIBRATION \<Longrightarrow> recordedShots us s = []"
  by (cases us) simp_all

lemma checkButtons_fields [simp]:
  "currentState (checkButtons s) = currentState s"
  "calibrationData (checkButtons s) = calibrationData s"
  "isCalibrated (checkButtons s) = isCalibrated s"
  "calibrationShots (checkButtons s) = calibrationShots s"
  "elbowSum (checkButtons s) = elbowSum s"
  "wristSum (checkButtons s) = wristSum s"
  "timingSum (checkButtons s) = timingSum s"
  by (simp_all add: checkButtons_eq)

lemma monitorBattery_fields [simp]:
  "currentState (monitorBattery s) = currentState s"
  "calibrationData (monitorBattery s) = calibrationData s"
  "isCalibrated (monitorBattery s) = isCalibrated s"
  "calibrationShots (monitorBattery s) = calibrationShots s"
  "elbowSum (monitorBattery s) = elbowSum s"
  "wristSum (monitorBattery s) = wristSum s"
  "timingSum (monitorBattery s) = timingSum s"
  by (simp_all add: monitorBattery_eq)

lemma handleCalibration_idle:
  assumes "calibrationShot u s = None"
  shows "calibrationData (handleCalibration u s) = calibrationData s"
    and "isCalibrated (handleCalibration u s) = isCalibrated s"
    and "calibrationShots (handleCalibration u s) = calibrationShots s"
    and "elbowSum (handleCalibration u s) = elbowSum s"
    and "wristSum (handleCalibration u s) = wristSum s"
    and "timingSum (handleCalibration u s) = timingSum s"
    and "currentState (handleCalibration u s) = currentState s"
proof -
  from assms have "\<not> shotDetected s"
    by (simp add: calibrationShot_eq split: if_splits)
  then have "handleCalibration u s =
      s\<lparr> console := console s @ [CalibrationPrompt], randCalls := randCalls s + 1,
         lastAccel := nextAccel s \<rparr>"
    by (simp add: handleCalibration_eq)
  then show "calibrationData (handleCalibration u s) = calibrationData s"
    and "isCalibrated (handleCalibration u s) = isCalibrated s"
    and "calibrationShots (handleCalibration u s) = calibrationShots s"
    and "elbowSum (handleCalibration u s) = elbowSum s"
    and "wristSum (handleCalibration u s) = wristSum s"
    and "timingSum (handleCalibration u s) = timingSum s"
    and "currentState (handleCalibration u s) = currentState s"
    by simp_all
qed

lemma handleCalibration_partial:
  assumes "calibrationShot u s = Some x" and "calibrationShots s + 1 < 10"
  shows "calibrationData (handleCalibration u s) = calibrationData s"
    and "isCalibrated (handleCalibration u s) = isCalibrated s"
    and "calibrationShots (handleCalibration u s) = calibrationShots s + 1"
    and "elbowSum (handleCalibration u s) = elbowSum s + elbowAngle x"
    and "wristSum (handleCalibration u s) = wristSum s + wristAngle x"
    and "timingSum (handleCalibration u s) = timingSum s + releaseTiming x"
    and "currentState (handleCalibration u s) = currentState s"
proof -
  from assms(1) have det: "shotDetected s"
    and x: "x = simulatedShot u (randSeq s) (randCalls s + 1)"
    by (simp_all add: calibrationShot_eq split: if_splits)
  from det assms(2) have "handleCalibration u s =
      s\<lparr> console := console s @
             [CalibrationPrompt, CalibrationShotRecorded (calibrationShots s + 1)],
         randCalls := randCalls s + 6,
         lastAccel := nextAccel s,
         hapticCalls := hapticCalls s @ [TriggerHapticFeedback 25 255 100],
         calibrationShots := calibrationShots s + 1,
         elbowSum := elbowSum s + elbowAngle x,
         wristSum := wristSum s + wristAngle x,
         timingSum := timingSum s + releaseTiming x \<rparr>"
    unfolding x by (simp add: handleCalibration_eq)
  then show "calibrationData (handleCalibration u s) = calibrationData s"
    and "isCalibrated (handleCalibration u s) = isCalibrated s"
    and "calibrationShots (handleCalibration u s) = calibrationShots s + 1"
    and "elbowSum (handleCalibration u s) = elbowSum s + elbowAngle x"
    and "wristSum (handleCalibration u s) = wristSum s + wristAngle x"
    and "timingSum (handleCalibration u s) = timingSum s + releaseTiming x"
    and "currentState (handleCalibration u s) = currentState s"
    by simp_all
qed

lemma handleCalibration_complete:
  assumes "calibrationShot u s = Some x" and "calibrationShots s + 1 \<ge> 10"
  shows "calibrationData (handleCalibration u s) =
           (calibrationData s)\<lparr> avgElbowAngle := (elbowSum s + elbowAngle x) / 10,
                                  avgWristAngle := (wristSum s + wristAngle x) / 10,
                                  avgReleaseTiming := (timingSum s + releaseTiming x) / 10,
                                  isValid := True \<rparr>"
    and "isCalibrated (handleCalibration u s)"
    and "calibrationShots (handleCalibration u s) = 0"
    and "elbowSum (handleCalibration u s) = 0"
    and "wristSum (handleCalibration u s) = 0"
    and "timingSum (handleCalibration u s) = 0"
    and "currentState (handleCalibration u s) = STANDBY"
proof -
  from assms(1) have det: "shotDetected s"
    and x: "x = simulatedShot u (randSeq s) (randCalls s + 1)"
    by (simp_all add: calibrationShot_eq split: if_splits)
  from det assms(2) have "handleCalibration u s =
      s\<lparr> console := console s @
             [CalibrationPrompt, CalibrationShotRecorded (calibrationShots s + 1),
              CalibrationComplete, AverageElbowAngle ((elbowSum s + elbowAngle x) / 10)],
         randCalls := randCalls s + 6,
         lastAccel := nextAccel s,
         hapticCalls := hapticCalls s @ [TriggerHapticFeedback 25 255 100],
         calibrationData := (calibrationData s)
           \<lparr> avgElbowAngle := (elbowSum s + elbowAngle x) / 10,
             avgWristAngle := (wristSum s + wristAngle x) / 10,
             avgReleaseTiming := (timingSum s + releaseTiming x) / 10,
             isValid := True \<rparr>,
         isCalibrated := True, currentState := STANDBY, calibrationShots := 0,
         elbowSum := 0, wristSum := 0, timingSum := 0 \<rparr>"
    unfolding x by (simp add: handleCalibration_eq)
  then show "calibrationData (handleCalibration u s) =
           (calibrationData s)\<lparr> avgElbowAngle := (elbowSum s + elbowAngle x) / 10,
                                  avgWristAngle := (wristSum s + wristAngle x) / 10,
                                  avgReleaseTiming := (timingSum s + releaseTiming x) / 10,
                                  isValid := True \<rparr>"
    and "isCalibrated (handleCalibration u s)"
    and "calibrationShots (handleCalibration u s) = 0"
    and "elbowSum (handleCalibration u s) = 0"
    and "wristSum (handleCalibration u s) = 0"
    and "timingSum (handleCalibration u s) = 0"
    and "currentState (handleCalibration u s) = STANDBY"
    by simp_all
qed

lemma loop_idle:
  assumes "currentState s = CALIBRATION" and "calibrationShot u (checkButtons s) = None"
  shows "calibrationData (loop u s) = calibrationData s"
    and "isCalibrated (loop u s) = isCalibrated s"
    and "calibrationShots (loop u s) = calibrationShots s"
    and "elbowSum (loop u s) = elbowSum s"
    and "wristSum (loop u s) = wristSum s"
    and "timingSum (loop u s) = timingSum s"
    and "currentState (loop u s) = CALIBRATION"
  using assms(1) handleCalibration_idle [OF assms(2)]
  by (simp_all add: loop_calibration)

lemma loop_partial:
  assumes "currentState s = CALIBRATION" and "calibrationShot u (checkButtons s) = Some x"
    and "calibrationShots s + 1 < 10"
  shows "calibrationData (loop u s) = calibrationData s"
    and "isCalibrated (loop u s) = isCalibrated s"
    and "calibrationShots (loop u s) = calibrationShots s + 1"
    and "elbowSum (loop u s) = elbowSum s + elbowAngle x"
    and "wristSum (loop u s) = wristSum s + wristAngle x"
    and "timingSum (loop u s) = timingSum s + releaseTiming x"
    and "currentState (loop u s) = CALIBRATION"
  using assms(1,3) handleCalibration_partial [OF assms(2)]
  by (simp_all add: loop_calibration)

lemma loop_complete:
  assumes "currentState s = CALIBRATION" and "calibrationShot u (checkButtons s) = Some x"
    and "calibrationShots s + 1 \<ge> 10"
  shows "calibrationData (loop u s) =
           (calibrationData s)\<lparr> avgElbowAngle := (elbowSum s + elbowAngle x) / 10,
                                  avgWristAngle := (wristSum s + wristAngle x) / 10,
                                  avgReleaseTiming := (timingSum s + releaseTiming x) / 10,
                                  isValid := True \<rparr>"
    and "isCalibrated (loop u s)"
    and "calibrationShots (loop u s) = 0"
    and "elbowSum (loop u s) = 0"
    and "wristSum (loop u s) = 0"
    and "timingSum (loop u s) = 0"
    and "currentState (loop u s) = STANDBY"
  using assms(1,3) handleCalibration_complete [OF assms(2)]
  by (simp_all add: loop_calibration)

section \<open>Shot detection\<close>

text \<open>
  Rounding decides the answer of the detector: for the draws 14 and then 64 the exact
  samples 11.2 and 16.2 differ by 5.0, the doubles by a little more, and a shot is reported.
\<close>

lemma detectShotMotion_rounding_border:
  "(9.8 + real (64 mod 100) / 10.0) - (9.8 + real (14 mod 100) / 10.0) = (5.0 :: real)"
  "dsub (accelSample 64) (accelSample 14) = 2814749767106561 / 562949953421312"
  "fst (detectShotMotion (s\<lparr>randSeq := \<lambda>n. 64, lastAccel := accelSample 14\<rparr>))"
  by (simp_all add: detectShotMotion_eq shotDetected_def nextAccel_def border_difference)

text \<open>
  Claim C5, as amended. \<^verbatim>\<open>detectShotMotion\<close> reports a shot exactly when the simulated
  acceleration of the current call differs from that of the previous call by more than 5.0,
  sample and difference computed in double precision, and it remembers the current sample.
  It consults neither \<^verbatim>\<open>MOTION_THRESHOLD\<close> nor \<^verbatim>\<open>SHOT_DETECTION_THRESHOLD\<close>: every simulated
  sample lies between 9 and 20, below both, and a call made while the remembered sample
  is 0, as it is at start-up, always reports a shot.
\<close>

theorem detectShotMotion_delta:
  "fst (detectShotMotion s) = (\<bar>dsub (nextAccel s) (lastAccel s)\<bar> > 5.0)
   \<and> lastAccel (snd (detectShotMotion s)) = nextAccel s
   \<and> nextAccel s = dadd (roundDouble 9.8) (ddiv (real (randSeq s (randCalls s) mod 100)) 10.0)
   \<and> 9 < nextAccel s \<and> nextAccel s < 20
   \<and> nextAccel s < real_of_int MOTION_THRESHOLD
   \<and> nextAccel s < real_of_int SHOT_DETECTION_THRESHOLD
   \<and> fst (detectShotMotion (s\<lparr>lastAccel := 0\<rparr>))"
proof -
  have b: "9 < nextAccel s" "nextAccel s < 20"
    unfolding nextAccel_def by (rule accelSample_bounds)+
  have "fst (detectShotMotion s) = (\<bar>dsub (nextAccel s) (lastAccel s)\<bar> > 5.0)"
    by (simp add: detectShotMotion_eq shotDetected_def)
  moreover have "lastAccel (snd (detectShotMotion s)) = nextAccel s"
    by (simp add: detectShotMotion_eq)
  moreover have "nextAccel s
      = dadd (roundDouble 9.8) (ddiv (real (randSeq s (randCalls s) mod 100)) 10.0)"
    by (simp add: nextAccel_def accelSample_def)
  moreover have "nextAccel s < real_of_int MOTION_THRESHOLD"
    and "nextAccel s < real_of_int SHOT_DETECTION_THRESHOLD"
    using b(2) by (simp_all add: MOTION_THRESHOLD_def SHOT_DETECTION_THRESHOLD_def)
  moreover have "fst (detectShotMotion (s\<lparr>lastAccel := 0\<rparr>))"
    by (simp add: detectShotMotion_eq shotDetected_def nextAccel_def first_call_detected)
  ultimately show ?thesis
    using b by (intro conjI)
qed

text \<open>
  The claim as stated fails on the first sample after start-up: it is the double next
  above 19.7, far below \<^verbatim>\<open>MOTION_THRESHOLD\<close> and \<^verbatim>\<open>SHOT_DETECTION_THRESHOLD\<close>, and a shot is
  detected.
\<close>

theorem detectShotMotion_below_threshold_counterexample:
  "lastAccel startUp = 0
   \<and> nextAccel startUp = 1386264260299981 / 70368744177664
   \<and> nextAccel startUp < real_of_int MOTION_THRESHOLD
   \<and> \<not> nextAccel startUp > real_of_int SHOT_DETECTION_THRESHOLD
   \<and> fst (detectShotMotion startUp)"
proof -
  have z: "lastAccel startUp = 0"
    by (simp add: startUp_def initialState_def)
  have "nextAccel startUp = accelSample 99"
    by (simp add: nextAccel_def startUp_def initialState_def exampleRand_def)
  then have n: "nextAccel startUp = 1386264260299981 / 70368744177664"
    by (simp only: sample_99)
  have "fst (detectShotMotion startUp) = (5 < \<bar>dsub (nextAccel startUp) 0\<bar>)"
    by (simp add: detectShotMotion_eq shotDetected_def z)
  then have d: "fst (detectShotMotion startUp)"
    by (simp add: nextAccel_def first_call_detected)
  show ?thesis
    unfolding n using z d by (simp add: MOTION_THRESHOLD_def SHOT_DETECTION_THRESHOLD_def n)
qed

section \<open>The system state never becomes CALIBRATION\<close>

lemma currentState_printSensorData [simp]: "currentState (printSensorData s) = currentState s"
  by (simp add: printSensorData_def rand_def cout_def Let_def)

lemma currentState_handleStandby [simp]: "currentState (handleStandby s) = currentState s"
  by (simp add: handleStandby_def millis_def cout_def readAllSensors_def Let_def)

lemma currentState_provideHapticFeedback [simp]:
  "currentState (provideHapticFeedback d s) = currentState s"
  by (simp add: provideHapticFeedback_def cout_def triggerHapticFeedback_def
      triggerPatternFeedback_def Let_def)

lemma currentState_handleTraining:
  "currentState (handleTraining u s) = (if isCalibrated s then currentState s else STANDBY)"
  by (simp add: handleTraining_def detectShotMotion_eq analyzeShotForm_eq cout_def millis_def
      Let_def)

lemma currentState_handleDataReview [simp]: "currentState (handleDataReview s) = STANDBY"
  by (simp add: handleDataReview_def cout_def Let_def)

lemma currentState_handleCalibration:
  "currentState (handleCalibration u s) = CALIBRATION \<Longrightarrow> currentState s = CALIBRATION"
  by (simp add: handleCalibration_eq split: if_splits)

lemma currentState_cycleSystemState:
  "currentState (cycleSystemState s) =
     (case currentState s of STANDBY \<Rightarrow> TRAINING | TRAINING \<Rightarrow> DATA_REVIEW
        | DATA_REVIEW \<Rightarrow> STANDBY | CALIBRATION \<Rightarrow> CALIBRATION)"
  by (simp add: cycleSystemState_def cout_def split: SystemState.splits)

lemma currentState_recordShotOutcome [simp]:
  "currentState (recordShotOutcome s) = currentState s"
  by (simp add: recordShotOutcome_def cout_def triggerHapticFeedback_def)

lemma loop_not_into_calibration:
  "currentState (loop u s) = CALIBRATION \<Longrightarrow> currentState s = CALIBRATION"
  by (auto simp add: loop_def Let_def currentState_handleTraining
      dest: currentState_handleCalibration split: SystemState.splits if_splits)

lemma dispatch_not_into_calibration:
  "currentState (dispatch e s) = CALIBRATION \<Longrightarrow> currentState s = CALIBRATION"
  by (cases e) (auto simp add: currentState_cycleSystemState
      dest: loop_not_into_calibration split: SystemState.splits)

lemma execute_not_into_calibration:
  "currentState (execute es s) = CALIBRATION \<Longrightarrow> currentState s = CALIBRATION"
  by (induction es arbitrary: s) (auto dest: dispatch_not_into_calibration)

text \<open>
  Claim C10. The program starts in \<^verbatim>\<open>STANDBY\<close>, and after any sequence of loop iterations
  (interleaved, if one likes, with calls of \<^verbatim>\<open>cycleSystemState\<close> and
  \<^verbatim>\<open>recordShotOutcome\<close>) the system state is not \<^verbatim>\<open>CALIBRATION\<close>. \<^verbatim>\<open>cycleSystemState\<close> maps
  \<^verbatim>\<open>STANDBY\<close> to \<^verbatim>\<open>TRAINING\<close>, \<^verbatim>\<open>TRAINING\<close> to \<^verbatim>\<open>DATA_REVIEW\<close>, \<^verbatim>\<open>DATA_REVIEW\<close> to \<^verbatim>\<open>STANDBY\<close> and
  leaves \<^verbatim>\<open>CALIBRATION\<close> alone. No operation of the loop sets the state to \<^verbatim>\<open>CALIBRATION\<close>:
  where the state is \<^verbatim>\<open>CALIBRATION\<close> after an operation, it was so before.
\<close>

theorem calibration_never_reached:
  "currentState (initialState rs cs) = STANDBY
   \<and> currentState (execute es (initialState rs cs)) \<noteq> CALIBRATION
   \<and> currentState (cycleSystemState s) =
       (case currentState s of STANDBY \<Rightarrow> TRAINING | TRAINING \<Rightarrow> DATA_REVIEW
          | DATA_REVIEW \<Rightarrow> STANDBY | CALIBRATION \<Rightarrow> CALIBRATION)
   \<and> (currentState (cycleSystemState s) = CALIBRATION \<longrightarrow> currentState s = CALIBRATION)
   \<and> (currentState (checkButtons s) = CALIBRATION \<longrightarrow> currentState s = CALIBRATION)
   \<and> (currentState (handleStandby s) = CALIBRATION \<longrightarrow> currentState s = CALIBRATION)
   \<and> (currentState (handleCalibration u s) = CALIBRATION \<longrightarrow> currentState s = CALIBRATION)
   \<and> (currentState (handleTraining u s) = CALIBRATION \<longrightarrow> currentState s = CALIBRATION)
   \<and> (currentState (handleDataReview s) = CALIBRATION \<longrightarrow> currentState s = CALIBRATION)
   \<and> (currentState (monitorBattery s) = CALIBRATION \<longrightarrow> currentState s = CALIBRATION)
   \<and> (currentState (loop u s) = CALIBRATION \<longrightarrow> currentState s = CALIBRATION)"
proof -
  have start: "currentState (initialState rs cs) = STANDBY"
    by (simp add: initialState_def)
  then have "currentState (execute es (initialState rs cs)) \<noteq> CALIBRATION"
    using execute_not_into_calibration [of es "initialState rs cs"] by auto
  moreover have "currentState (cycleSystemState s) = CALIBRATION \<longrightarrow> currentState s = CALIBRATION"
    by (simp add: currentState_cycleSystemState split: SystemState.splits)
  moreover have "currentState (handleTraining u s) = CALIBRATION \<longrightarrow> currentState s = CALIBRATION"
    by (simp add: currentState_handleTraining)
  ultimately show ?thesis
    using start currentState_handleCalibration [of u s] loop_not_into_calibration [of u s]
    by (simp add: currentState_cycleSystemState)
qed

theorem calibration_never_reached_witness:
  "currentState (execute exampleEvents startUp) = TRAINING
   \<and> currentState (cycleSystemState firstRunStart) = CALIBRATION
   \<and> currentState firstRunStart = CALIBRATION
   \<and> currentState (cycleSystemState startUp) = TRAINING"
proof -
  have "currentState (cycleSystemState firstRunStart) = CALIBRATION"
    by (simp add: cycleSystemState_def firstRunStart_def)
  moreover have "currentState (execute exampleEvents startUp) \<noteq> CALIBRATION"
    and "currentState (cycleSystemState firstRunStart) = CALIBRATION
           \<longrightarrow> currentState firstRunStart = CALIBRATION"
    and "currentState (cycleSystemState startUp) =
       (case currentState startUp of STANDBY \<Rightarrow> TRAINING | TRAINING \<Rightarrow> DATA_REVIEW
          | DATA_REVIEW \<Rightarrow> STANDBY | CALIBRATION \<Rightarrow> CALIBRATION)"
    using calibration_never_reached [of exampleRand exampleClock exampleEvents firstRunStart]
      calibration_never_reached [of exampleRand exampleClock exampleEvents startUp]
    by (simp_all add: startUp_def)
  moreover have "currentState startUp = STANDBY"
    by (simp add: startUp_def initialState_def)
  moreover have "currentState (execute exampleEvents startUp) = TRAINING"
    by (simp add: exampleEvents_def loop_def Let_def currentState_handleTraining
        currentState_cycleSystemState startUp_def initialState_def)
  ultimately show ?thesis
    by simp
qed

section \<open>Training without a calibration\<close>

text \<open>
  Claim C3. Called while \<^verbatim>\<open>isCalibrated\<close> is false, \<^verbatim>\<open>handleTraining\<close> prints the request to
  calibrate, sets the system state to \<^verbatim>\<open>STANDBY\<close> and returns: the state is otherwise
  unchanged. In particular no haptic call is made, the shot counter and the calibration
  data keep their values, and no shot is detected or analysed (no \<^verbatim>\<open>rand()\<close> is drawn).
\<close>

theorem handleTraining_not_calibrated:
  "\<not> isCalibrated s \<Longrightarrow>
     handleTraining u s = s\<lparr>console := console s @ [PleaseCalibrateFirst], currentState := STANDBY\<rparr>
     \<and> hapticCalls (handleTraining u s) = hapticCalls s
     \<and> shotCount (handleTraining u s) = shotCount s
     \<and> calibrationData (handleTraining u s) = calibrationData s
     \<and> isCalibrated (handleTraining u s) = isCalibrated s
     \<and> randCalls (handleTraining u s) = randCalls s
     \<and> lastShotTime (handleTraining u s) = lastShotTime s
     \<and> currentState (handleTraining u s) = STANDBY"
  by (simp add: handleTraining_def cout_def)

theorem handleTraining_not_calibrated_witness:
  "\<not> isCalibrated trainingStart
   \<and> currentState trainingStart = TRAINING
   \<and> hapticCalls (handleTraining exampleUninit trainingStart) = []
   \<and> shotCount (handleTraining exampleUninit trainingStart) = 0
   \<and> calibrationData (handleTraining exampleUninit trainingStart) = zeroCalibration
   \<and> console (handleTraining exampleUninit trainingStart) = [PleaseCalibrateFirst]
   \<and> currentState (handleTraining exampleUninit trainingStart) = STANDBY"
proof -
  have h: "\<not> isCalibrated trainingStart"
    by (simp add: trainingStart_def startUp_def initialState_def)
  show ?thesis
    using h handleTraining_not_calibrated [OF h, of exampleUninit]
    by (simp add: trainingStart_def startUp_def initialState_def)
qed

section \<open>Feedback selection\<close>

lemma provideHapticFeedback_eq:
  "provideHapticFeedback shotData s =
     s\<lparr> hapticCalls := hapticCalls s @ [selectedFeedback shotData (calibrationData s)],
        console := console s @
          [if \<bar>elbowAngle shotData - avgElbowAngle (calibrationData s)\<bar> > ELBOW_ANGLE_TOLERANCE
           then HapticElbowCorrection
           else if \<bar>wristAngle shotData - avgWristAngle (calibrationData s)\<bar> > WRIST_ANGLE_TOLERANCE
           then HapticWristCorrection else HapticGoodForm] \<rparr>"
  by (simp add: provideHapticFeedback_def selectedFeedback_def cout_def
      triggerHapticFeedback_def triggerPatternFeedback_def Let_def)

lemma handleTraining_calibrated:
  assumes "isCalibrated s"
  shows "hapticCalls (handleTraining u s) =
           hapticCalls s @
             (if shotDetected s
              then [selectedFeedback (simulatedShot u (randSeq s) (randCalls s + 1)) (calibrationData s)]
              else [])"
    and "shotCount (handleTraining u s) =
           (if shotDetected s then shotCount s + 1 else shotCount s)"
  using assms
  by (simp_all add: handleTraining_def detectShotMotion_eq analyzeShotForm_eq
      provideHapticFeedback_eq cout_def millis_def Let_def)

text \<open>
  Claim C4. \<^verbatim>\<open>provideHapticFeedback\<close> makes exactly one call into the haptic driver, the one
  the policy selects: a strong pulse (255, 300 ms) on pin 25, the upper arm, when the elbow
  angle is off by more than \<^verbatim>\<open>ELBOW_ANGLE_TOLERANCE\<close>; otherwise a medium pulse (128, 150 ms)
  on pin 27, the wrist, when the wrist angle is off by more than \<^verbatim>\<open>WRIST_ANGLE_TOLERANCE\<close>;
  otherwise a light double pulse on all zones. In training mode a call of the handler that
  detects a shot scores it and fires that one pattern; a call that detects none fires none.
\<close>

theorem provideHapticFeedback_first_match:
  "hapticCalls (provideHapticFeedback shotData s) =
     hapticCalls s @
       [if \<bar>elbowAngle shotData - avgElbowAngle (calibrationData s)\<bar> > ELBOW_ANGLE_TOLERANCE
        then TriggerHapticFeedback HAPTIC_1_PIN (intensityValue STRONG) 300
        else if \<bar>wristAngle shotData - avgWristAngle (calibrationData s)\<bar> > WRIST_ANGLE_TOLERANCE
        then TriggerHapticFeedback HAPTIC_3_PIN (intensityValue MEDIUM) 150
        else TriggerPatternFeedback ALL_ZONES DOUBLE_PULSE LIGHT]
   \<and> hapticCalls (provideHapticFeedback shotData s) =
       hapticCalls s @ [selectedFeedback shotData (calibrationData s)]
   \<and> length (hapticCalls (provideHapticFeedback shotData s)) = length (hapticCalls s) + 1
   \<and> (isCalibrated s \<longrightarrow>
        hapticCalls (handleTraining u s) =
          hapticCalls s @
            (if fst (detectShotMotion s)
             then [selectedFeedback (fst (analyzeShotForm u (snd (detectShotMotion s))))
                     (calibrationData s)]
             else []))"
  by (simp add: provideHapticFeedback_eq handleTraining_calibrated detectShotMotion_eq
      analyzeShotForm_eq selectedFeedback_def)

theorem provideHapticFeedback_first_match_witness:
  "isCalibrated calibratedTraining
   \<and> fst (detectShotMotion calibratedTraining)
   \<and> hapticCalls (handleTraining exampleUninit calibratedTraining) =
       hapticCalls calibratedTraining @ [TriggerHapticFeedback 25 255 300]"
proof -
  have c: "isCalibrated calibratedTraining"
    by (simp add: calibratedTraining_def run_simps)
  have d: "fst (detectShotMotion calibratedTraining)"
    by (simp add: calibratedTraining_def detectShotMotion_eq run_simps)
  have "selectedFeedback (fst (analyzeShotForm exampleUninit (snd (detectShotMotion calibratedTraining))))
          (calibrationData calibratedTraining) = TriggerHapticFeedback 25 255 300"
    by (simp add: calibratedTraining_def detectShotMotion_eq analyzeShotForm_eq
        selectedFeedback_def ELBOW_ANGLE_TOLERANCE_def HAPTIC_1_PIN_def run_simps)
  with c d show ?thesis
    using provideHapticFeedback_first_match [of exampleUninit calibratedTraining exampleUninit]
    by simp
qed

section \<open>What the shot analysis depends on\<close>

text \<open>
  Claim C9. Running the analysis twice on the same input is to give the same shot data.
  \<^verbatim>\<open>analyzeShotForm\<close> returns a local \<^verbatim>\<open>FreeThrowData\<close> that it declares without an
  initialiser; it assigns five of its fields from \<^verbatim>\<open>rand()\<close> and never the body balance,
  the success flag and the shot duration. Called at start-up, in the same program state and
  with the same draws, it leaves the same state and assigns the same five values, and the
  shot data it returns differ in the three other fields with the contents the local
  happened to hold.
\<close>

theorem analyzeShotForm_uninitialised_fields:
  "snd (analyzeShotForm exampleUninit startUp) = snd (analyzeShotForm otherUninit startUp)
   \<and> elbowAngle (fst (analyzeShotForm exampleUninit startUp)) = 99
   \<and> elbowAngle (fst (analyzeShotForm otherUninit startUp)) = 99
   \<and> wristAngle (fst (analyzeShotForm exampleUninit startUp))
       = wristAngle (fst (analyzeShotForm otherUninit startUp))
   \<and> releaseTiming (fst (analyzeShotForm exampleUninit startUp))
       = releaseTiming (fst (analyzeShotForm otherUninit startUp))
   \<and> followThrough (fst (analyzeShotForm exampleUninit startUp))
       = followThrough (fst (analyzeShotForm otherUninit startUp))
   \<and> peakAcceleration (fst (analyzeShotForm exampleUninit startUp))
       = peakAcceleration (fst (analyzeShotForm otherUninit startUp))
   \<and> bodyBalance (fst (analyzeShotForm exampleUninit startUp)) = 0
   \<and> bodyBalance (fst (analyzeShotForm otherUninit startUp)) = 5
   \<and> wasSuccessful (fst (analyzeShotForm exampleUninit startUp)) = False
   \<and> wasSuccessful (fst (analyzeShotForm otherUninit startUp)) = True
   \<and> shotDuration (fst (analyzeShotForm exampleUninit startUp)) = 0
   \<and> shotDuration (fst (analyzeShotForm otherUninit startUp)) = 6
   \<and> fst (analyzeShotForm exampleUninit startUp) \<noteq> fst (analyzeShotForm otherUninit startUp)"
proof -
  have a: "elbowAngle (fst (analyzeShotForm exampleUninit startUp)) = 99"
    "elbowAngle (fst (analyzeShotForm otherUninit startUp)) = 99"
    by (simp_all add: analyzeShotForm_eq simulatedShot_def startUp_def initialState_def
        exampleRand_def)
  have c: "bodyBalance (fst (analyzeShotForm exampleUninit startUp)) = 0"
    and d: "bodyBalance (fst (analyzeShotForm otherUninit startUp)) = 5"
    by (simp_all add: analyzeShotForm_eq simulatedShot_def exampleUninit_def otherUninit_def)
  from c d have "fst (analyzeShotForm exampleUninit startUp)
     \<noteq> fst (analyzeShotForm otherUninit startUp)"
    by auto
  moreover have "wasSuccessful (fst (analyzeShotForm exampleUninit startUp)) = False"
    "wasSuccessful (fst (analyzeShotForm otherUninit startUp)) = True"
    "shotDuration (fst (analyzeShotForm exampleUninit startUp)) = 0"
    "shotDuration (fst (analyzeShotForm otherUninit startUp)) = 6"
    by (simp_all add: analyzeShotForm_eq simulatedShot_def exampleUninit_def otherUninit_def)
  moreover have "snd (analyzeShotForm exampleUninit startUp) = snd (analyzeShotForm otherUninit startUp)"
    "wristAngle (fst (analyzeShotForm exampleUninit startUp))
       = wristAngle (fst (analyzeShotForm otherUninit startUp))"
    "releaseTiming (fst (analyzeShotForm exampleUninit startUp))
       = releaseTiming (fst (analyzeShotForm otherUninit startUp))"
    "followThrough (fst (analyzeShotForm exampleUninit startUp))
       = followThrough (fst (analyzeShotForm otherUninit startUp))"
    "peakAcceleration (fst (analyzeShotForm exampleUninit startUp))
       = peakAcceleration (fst (analyzeShotForm otherUninit startUp))"
    by (simp_all add: analyzeShotForm_eq simulatedShot_def)
  ultimately show ?thesis
    using a c d by (intro conjI)
qed

section \<open>Properties of calibration runs\<close>

lemma run_before_tenth:
  "0 \<le> calibrationShots s \<Longrightarrow>
   calibrationShots s + int (length (recordedShots us s)) < 10 \<Longrightarrow>
     calibrationData (calibrationMode us s) = calibrationData s
   \<and> isCalibrated (calibrationMode us s) = isCalibrated s
   \<and> calibrationShots (calibrationMode us s)
       = calibrationShots s + int (length (recordedShots us s))
   \<and> elbowSum (calibrationMode us s)
       = elbowSum s + sum_list (map elbowAngle (recordedShots us s))
   \<and> wristSum (calibrationMode us s)
       = wristSum s + sum_list (map wristAngle (recordedShots us s))
   \<and> timingSum (calibrationMode us s)
       = timingSum s + sum_list (map releaseTiming (recordedShots us s))
   \<and> currentState (calibrationMode us s) = currentState s"
proof (induction us arbitrary: s)
  case Nil
  then show ?case by simp
next
  case (Cons u us)
  show ?case
  proof (cases "currentState s = CALIBRATION")
    case False
    then show ?thesis by simp
  next
    case cal: True
    show ?thesis
    proof (cases "calibrationShot u (checkButtons s)")
      case None
      note step = loop_idle [OF cal None]
      from Cons.prems cal None
      have "calibrationShots (loop u s) + int (length (recordedShots us (loop u s))) < 10"
        and "0 \<le> calibrationShots (loop u s)"
        by (simp_all add: step)
      from Cons.IH [OF this(2) this(1)] cal None show ?thesis
        by (simp add: step)
    next
      case (Some x)
      from Cons.prems cal Some have lt: "calibrationShots s + 1 < 10"
        by simp
      note step = loop_partial [OF cal Some lt]
      from Cons.prems cal Some
      have "calibrationShots (loop u s) + int (length (recordedShots us (loop u s))) < 10"
        and "0 \<le> calibrationShots (loop u s)"
        by (simp_all add: step)
      from Cons.IH [OF this(2) this(1)] cal Some show ?thesis
        by (simp add: step)
    qed
  qed
qed

lemma run_at_most_ten:
  "0 \<le> calibrationShots s \<Longrightarrow> calibrationShots s < 10 \<Longrightarrow>
     calibrationShots s + int (length (recordedShots us s)) \<le> 10"
proof (induction us arbitrary: s)
  case Nil
  then show ?case by simp
next
  case (Cons u us)
  show ?case
  proof (cases "currentState s = CALIBRATION")
    case False
    with Cons.prems show ?thesis by simp
  next
    case cal: True
    show ?thesis
    proof (cases "calibrationShot u (checkButtons s)")
      case None
      note step = loop_idle [OF cal None]
      from Cons.IH [of "loop u s"] Cons.prems cal None show ?thesis
        by (simp add: step)
    next
      case (Some x)
      show ?thesis
      proof (cases "calibrationShots s + 1 < 10")
        case True
        note step = loop_partial [OF cal Some True]
        from Cons.IH [of "loop u s"] Cons.prems True cal Some show ?thesis
          by (simp add: step)
      next
        case False
        then have ge: "calibrationShots s + 1 \<ge> 10" by simp
        note step = loop_complete [OF cal Some ge]
        from step(7) have "recordedShots us (loop u s) = []"
          by (simp add: recordedShots_left)
        with Cons.prems cal Some show ?thesis
          by simp
      qed
    qed
  qed
qed

lemma run_tenth:
  "0 \<le> calibrationShots s \<Longrightarrow> calibrationShots s < 10 \<Longrightarrow>
   calibrationShots s + int (length (recordedShots us s)) = 10 \<Longrightarrow>
     calibrationData (calibrationMode us s) =
       (calibrationData s)
         \<lparr> avgElbowAngle := (elbowSum s + sum_list (map elbowAngle (recordedShots us s))) / 10,
           avgWristAngle := (wristSum s + sum_list (map wristAngle (recordedShots us s))) / 10,
           avgReleaseTiming :=
             (timingSum s + sum_list (map releaseTiming (recordedShots us s))) / 10,
           isValid := True \<rparr>
   \<and> isCalibrated (calibrationMode us s)
   \<and> calibrationShots (calibrationMode us s) = 0
   \<and> elbowSum (calibrationMode us s) = 0
   \<and> wristSum (calibrationMode us s) = 0
   \<and> timingSum (calibrationMode us s) = 0
   \<and> currentState (calibrationMode us s) = STANDBY"
proof (induction us arbitrary: s)
  case Nil
  then show ?case by simp
next
  case (Cons u us)
  show ?case
  proof (cases "currentState s = CALIBRATION")
    case False
    with Cons.prems show ?thesis by simp
  next
    case cal: True
    show ?thesis
    proof (cases "calibrationShot u (checkButtons s)")
      case None
      note step = loop_idle [OF cal None]
      from Cons.IH [of "loop u s"] Cons.prems cal None show ?thesis
        by (simp add: step)
    next
      case (Some x)
      show ?thesis
      proof (cases "calibrationShots s + 1 < 10")
        case True
        note step = loop_partial [OF cal Some True]
        from Cons.IH [of "loop u s"] Cons.prems True cal Some show ?thesis
          by (simp add: step add.assoc)
      next
        case False
        then have ge: "calibrationShots s + 1 \<ge> 10" by simp
        note step = loop_complete [OF cal Some ge]
        from step(7) have "recordedShots us (loop u s) = []"
          and "calibrationMode us (loop u s) = loop u s"
          by (simp_all add: recordedShots_left calibrationMode_left)
        with cal Some show ?thesis
          by (simp add: step)
      qed
    qed
  qed
qed

text \<open>
  The shots counted by \<open>recordedShots\<close> are the ones the program acknowledges: each adds one
  strong pulse on pin 25 to the trace of haptic calls, and nothing else does during a run.
\<close>

lemma loop_calibration_hapticCalls:
  assumes "currentState s = CALIBRATION"
  shows "hapticCalls (loop u s) =
           hapticCalls s @
             (case calibrationShot u (checkButtons s) of
                None \<Rightarrow> [] | Some x \<Rightarrow> [TriggerHapticFeedback HAPTIC_1_PIN (intensityValue STRONG) 100])"
proof -
  have "hapticCalls (monitorBattery t) = hapticCalls t" for t
    by (simp add: monitorBattery_eq)
  moreover have "hapticCalls (checkButtons s) = hapticCalls s"
    by (simp add: checkButtons_eq)
  moreover have "hapticCalls (handleCalibration u t) =
      hapticCalls t @ (case calibrationShot u t of
                None \<Rightarrow> [] | Some x \<Rightarrow> [TriggerHapticFeedback 25 255 100])" for t
    by (simp add: handleCalibration_eq calibrationShot_eq)
  ultimately show ?thesis
    using assms by (simp add: loop_calibration HAPTIC_1_PIN_def split: option.splits)
qed

lemma recordedShots_traced:
  "hapticCalls (calibrationMode us s) =
     hapticCalls s @
       replicate (length (recordedShots us s))
         (TriggerHapticFeedback HAPTIC_1_PIN (intensityValue STRONG) 100)"
proof (induction us arbitrary: s)
  case Nil
  then show ?case by simp
next
  case (Cons u us)
  show ?case
  proof (cases "currentState s = CALIBRATION")
    case False
    then show ?thesis by simp
  next
    case True
    then show ?thesis
      using Cons.IH [of "loop u s"] loop_calibration_hapticCalls [OF True, of u]
      by (simp split: option.splits)
  qed
qed

lemma firstRun_shots:
  "recordedShots tenIterations firstRunStart =
     [simulatedShot exampleUninit exampleRand 1, simulatedShot exampleUninit exampleRand 7,
      simulatedShot exampleUninit exampleRand 13, simulatedShot exampleUninit exampleRand 19,
      simulatedShot exampleUninit exampleRand 25, simulatedShot exampleUninit exampleRand 31,
      simulatedShot exampleUninit exampleRand 37, simulatedShot exampleUninit exampleRand 43,
      simulatedShot exampleUninit exampleRand 49, simulatedShot exampleUninit exampleRand 55]"
  by (simp add: run_simps)

lemma firstRun_elbows:
  "map elbowAngle (recordedShots tenIterations firstRunStart)
     = [99, 80, 99, 80, 99, 80, 99, 80, 99, 80]"
  by (simp add: firstRun_shots simulatedShot_def exampleRand_def)

lemma shortRun_shots:
  "map elbowAngle (recordedShots twoIterations firstRunStart) = [99, 80]"
  by (simp add: run_simps twoIterations_def)

lemma firstRunStart_fields:
  "calibrationShots firstRunStart = 0" "elbowSum firstRunStart = 0"
  "wristSum firstRunStart = 0" "timingSum firstRunStart = 0"
  "calibrationData firstRunStart = zeroCalibration" "\<not> isCalibrated firstRunStart"
  by (simp_all add: firstRunStart_def initialState_def)

text \<open>
  Claim C6. A run of the calibration mode starts with the shot counter at 0. After any
  number \<open>n\<close> of its loop iterations, for as long as fewer than ten shots have been
  recorded, \<^verbatim>\<open>calibrationData\<close> (every field) and \<^verbatim>\<open>isCalibrated\<close> have the values they had when
  the run started: a re-calibration leaves the previous profile in place until its tenth
  shot is recorded.
\<close>

theorem calibration_profile_kept_until_tenth:
  "calibrationShots s = 0 \<Longrightarrow> length (recordedShots (take n us) s) < 10 \<Longrightarrow>
     calibrationData (calibrationMode (take n us) s) = calibrationData s
     \<and> isCalibrated (calibrationMode (take n us) s) = isCalibrated s"
  using run_before_tenth [of s "take n us"] by simp

theorem calibration_profile_kept_until_tenth_witness:
  "calibrationShots secondRunStart = 0
   \<and> length (recordedShots (take 1 tenIterations) secondRunStart) = 1
   \<and> calibrationData (calibrationMode (take 1 tenIterations) secondRunStart)
       = calibrationData secondRunStart
   \<and> isCalibrated (calibrationMode (take 1 tenIterations) secondRunStart)
   \<and> avgElbowAngle (calibrationData secondRunStart) = 89.5"
proof -
  have a: "calibrationShots secondRunStart = 0"
    by (simp add: secondRunStart_def run_simps)
  have b: "length (recordedShots (take 1 tenIterations) secondRunStart) = 1"
    by (simp add: secondRunStart_def run_simps)
  have c: "isCalibrated secondRunStart"
    and d: "avgElbowAngle (calibrationData secondRunStart) = 89.5"
    by (simp_all add: secondRunStart_def run_simps)
  from a b c d show ?thesis
    using calibration_profile_kept_until_tenth [of secondRunStart 1 tenIterations]
    by simp
qed

text \<open>
  Claim C1, as amended. In a run of the calibration mode (it starts with the shot counter at
  0) at most ten shots are recorded. While fewer than ten have been recorded the handler
  writes neither the valid flag of the profile nor \<^verbatim>\<open>isCalibrated\<close>: both keep the values they
  had when the run started (false on a first run, still true on a re-calibration after a
  completed run). When the tenth shot is recorded both are set to true. So in a run that
  starts with both flags false, each flag is true exactly when ten shots have been recorded.
\<close>

theorem calibration_flags_set_at_tenth:
  "calibrationShots s = 0 \<Longrightarrow>
     length (recordedShots us s) \<le> 10
   \<and> (length (recordedShots us s) < 10 \<longrightarrow>
        isValid (calibrationData (calibrationMode us s)) = isValid (calibrationData s)
        \<and> isCalibrated (calibrationMode us s) = isCalibrated s)
   \<and> (length (recordedShots us s) = 10 \<longrightarrow>
        isValid (calibrationData (calibrationMode us s)) \<and> isCalibrated (calibrationMode us s))
   \<and> (\<not> isValid (calibrationData s) \<and> \<not> isCalibrated s \<longrightarrow>
        (isValid (calibrationData (calibrationMode us s)) = (length (recordedShots us s) = 10))
        \<and> (isCalibrated (calibrationMode us s) = (length (recordedShots us s) = 10)))"
proof -
  assume start: "calibrationShots s = 0"
  have most: "length (recordedShots us s) \<le> 10"
    using run_at_most_ten [of s us] start by simp
  have before: "isValid (calibrationData (calibrationMode us s)) = isValid (calibrationData s)
        \<and> isCalibrated (calibrationMode us s) = isCalibrated s"
    if "length (recordedShots us s) < 10"
    using run_before_tenth [of s us] start that by simp
  have tenth: "isValid (calibrationData (calibrationMode us s)) \<and> isCalibrated (calibrationMode us s)"
    if "length (recordedShots us s) = 10"
    using run_tenth [of s us] start that by simp
  from most have "length (recordedShots us s) < 10 \<or> length (recordedShots us s) = 10"
    by auto
  with most before tenth show ?thesis
    by auto
qed

theorem calibration_flags_set_at_tenth_witness:
  "calibrationShots firstRunStart = 0
   \<and> length (recordedShots twoIterations firstRunStart) = 2
   \<and> \<not> isValid (calibrationData (calibrationMode twoIterations firstRunStart))
   \<and> \<not> isCalibrated (calibrationMode twoIterations firstRunStart)
   \<and> length (recordedShots tenIterations firstRunStart) = 10
   \<and> isValid (calibrationData (calibrationMode tenIterations firstRunStart))
   \<and> isCalibrated (calibrationMode tenIterations firstRunStart)"
proof -
  have two: "length (recordedShots twoIterations firstRunStart) = 2"
    using arg_cong [OF shortRun_shots, of length] by simp
  have ten: "length (recordedShots tenIterations firstRunStart) = 10"
    by (simp add: firstRun_shots)
  have "\<not> isValid (calibrationData firstRunStart)"
    by (simp add: firstRunStart_fields zeroCalibration_def)
  with two ten show ?thesis
    using calibration_flags_set_at_tenth [of firstRunStart twoIterations]
      calibration_flags_set_at_tenth [of firstRunStart tenIterations]
    by (simp add: firstRunStart_fields)
qed

text \<open>
  The claim as stated fails on a re-calibration. After a completed first run the system is
  put in calibration mode again; the second run starts with the counter at 0, and after its
  first recorded shot (one shot, fewer than ten) both flags are set.
\<close>

theorem recalibration_flags_counterexample:
  "currentState secondRunStart = CALIBRATION
   \<and> calibrationShots secondRunStart = 0
   \<and> length (recordedShots [exampleUninit] secondRunStart) = 1
   \<and> calibrationShots (calibrationMode [exampleUninit] secondRunStart) = 1
   \<and> isValid (calibrationData (calibrationMode [exampleUninit] secondRunStart))
   \<and> isCalibrated (calibrationMode [exampleUninit] secondRunStart)"
  by (simp add: secondRunStart_def run_simps)

text \<open>
  Claim C2, as amended. When a run of the calibration mode that started with cleared
  accumulators records its tenth shot, the fields \<^verbatim>\<open>avgElbowAngle\<close>, \<^verbatim>\<open>avgWristAngle\<close> and
  \<^verbatim>\<open>avgReleaseTiming\<close> of the profile receive the arithmetic means of the ten recorded elbow
  angles, wrist angles and release timings, and the profile is marked valid. No standard
  deviation is computed: \<^verbatim>\<open>stdDevElbow\<close>, \<^verbatim>\<open>stdDevWrist\<close> and \<^verbatim>\<open>stdDevTiming\<close>, and likewise
  \<^verbatim>\<open>avgFollowThrough\<close> and \<^verbatim>\<open>avgBodyBalance\<close>, keep the values they had before the run (0 after
  start-up, whatever the shots were).
\<close>

theorem calibration_averages:
  "calibrationShots s = 0 \<Longrightarrow> elbowSum s = 0 \<Longrightarrow> wristSum s = 0 \<Longrightarrow> timingSum s = 0 \<Longrightarrow>
   length (recordedShots us s) = 10 \<Longrightarrow>
     avgElbowAngle (calibrationData (calibrationMode us s))
       = mean (map elbowAngle (recordedShots us s))
   \<and> avgWristAngle (calibrationData (calibrationMode us s))
       = mean (map wristAngle (recordedShots us s))
   \<and> avgReleaseTiming (calibrationData (calibrationMode us s))
       = mean (map releaseTiming (recordedShots us s))
   \<and> isValid (calibrationData (calibrationMode us s))
   \<and> isCalibrated (calibrationMode us s)
   \<and> stdDevElbow (calibrationData (calibrationMode us s)) = stdDevElbow (calibrationData s)
   \<and> stdDevWrist (calibrationData (calibrationMode us s)) = stdDevWrist (calibrationData s)
   \<and> stdDevTiming (calibrationData (calibrationMode us s)) = stdDevTiming (calibrationData s)
   \<and> avgFollowThrough (calibrationData (calibrationMode us s))
       = avgFollowThrough (calibrationData s)
   \<and> avgBodyBalance (calibrationData (calibrationMode us s))
       = avgBodyBalance (calibrationData s)"
  using run_tenth [of s us] by (simp add: mean_def)

theorem calibration_averages_witness:
  "calibrationShots firstRunStart = 0 \<and> elbowSum firstRunStart = 0
   \<and> wristSum firstRunStart = 0 \<and> timingSum firstRunStart = 0
   \<and> length (recordedShots tenIterations firstRunStart) = 10
   \<and> mean (map elbowAngle (recordedShots tenIterations firstRunStart)) = 89.5
   \<and> avgElbowAngle (calibrationData (calibrationMode tenIterations firstRunStart)) = 89.5
   \<and> isValid (calibrationData (calibrationMode tenIterations firstRunStart))
   \<and> stdDevElbow (calibrationData (calibrationMode tenIterations firstRunStart)) = 0"
proof -
  have ten: "length (recordedShots tenIterations firstRunStart) = 10"
    by (simp add: firstRun_shots)
  have m: "mean (map elbowAngle (recordedShots tenIterations firstRunStart)) = 89.5"
    by (simp add: firstRun_elbows mean_def)
  from ten m show ?thesis
    using calibration_averages [of firstRunStart tenIterations]
    by (simp add: firstRunStart_fields zeroCalibration_def)
qed

text \<open>
  The claim as stated fails on the first run after start-up with elbow angles 99 and 80 in
  turn: their population standard deviation is 9.5, the profile is valid, and its
  \<^verbatim>\<open>stdDevElbow\<close> is 0.
\<close>

theorem calibration_stddev_counterexample:
  "length (recordedShots tenIterations firstRunStart) = 10
   \<and> map elbowAngle (recordedShots tenIterations firstRunStart)
       = [99, 80, 99, 80, 99, 80, 99, 80, 99, 80]
   \<and> popStdDev (map elbowAngle (recordedShots tenIterations firstRunStart)) = 9.5
   \<and> isValid (calibrationData (calibrationMode tenIterations firstRunStart))
   \<and> stdDevElbow (calibrationData (calibrationMode tenIterations firstRunStart)) = 0"
proof -
  have ten: "length (recordedShots tenIterations firstRunStart) = 10"
    by (simp add: firstRun_shots)
  have "popStdDev [99, 80, 99, 80, 99, 80, 99, 80, 99, 80] = sqrt ((19 / 2)\<^sup>2)"
    by (simp add: popStdDev_def mean_def power2_eq_square)
  also have "\<dots> = 19 / 2"
    by simp
  finally have sd: "popStdDev (map elbowAngle (recordedShots tenIterations firstRunStart)) = 9.5"
    by (simp add: firstRun_elbows)
  have "isValid (calibrationData (calibrationMode tenIterations firstRunStart))"
    and "stdDevElbow (calibrationData (calibrationMode tenIterations firstRunStart)) = 0"
    by (simp_all add: run_simps)
  with ten sd show ?thesis
    by (simp add: firstRun_elbows)
qed

section \<open>The haptic controller\<close>

lemma clampIntensity_range: "0 \<le> clampIntensity v \<and> clampIntensity v \<le> 255"
  by (simp add: clampIntensity_def)

lemma updateMotor_range: "intensityInRange m \<Longrightarrow> intensityInRange (updateMotor level now m)"
  using clampIntensity_range [of "level m (now - startTime m)"]
  by (simp add: updateMotor_def motorIdle_def intensityInRange_def)

lemma trigger_range:
  assumes "list_all intensityInRange ms"
  shows "list_all intensityInRange (trigger h now z p i d ms)"
proof (cases h)
  case True
  with assms show ?thesis
    by (simp add: trigger_def)
next
  case False
  from assms have "list_all intensityInRange
      (map (\<lambda>m. if inZone z m
                 then m\<lparr> pattern := p, currentIntensity := clampIntensity i,
                         isActive := True, startTime := now, duration := d \<rparr>
                 else m) ms)"
    using clampIntensity_range [of i]
    by (induction ms) (simp_all add: intensityInRange_def)
  with False show ?thesis
    by (simp add: trigger_def)
qed

lemma emergencyStop_range: "list_all intensityInRange (emergencyStop ms)"
  by (induction ms) (simp_all add: emergencyStop_def motorIdle_def intensityInRange_def)

lemma update_range:
  "list_all intensityInRange ms \<Longrightarrow> list_all intensityInRange (update level h now ms)"
proof (cases h)
  case True
  then show ?thesis
    by (simp add: update_def emergencyStop_range)
next
  case False
  assume "list_all intensityInRange ms"
  then have "list_all intensityInRange (map (updateMotor level now) ms)"
    by (induction ms) (simp_all add: updateMotor_range)
  with False show ?thesis
    by (simp add: update_def)
qed

lemma applyOp_range:
  "list_all intensityInRange ms \<Longrightarrow> list_all intensityInRange (applyOp level c ms)"
  by (cases c) (simp_all add: trigger_range update_range)

lemma applyOps_range:
  "list_all intensityInRange ms \<Longrightarrow> list_all intensityInRange (applyOps level cs ms)"
  by (induction cs arbitrary: ms) (simp_all add: applyOp_range)

lemma fresh_range: "list_all intensityInRange (map HapticMotor_pin pins)"
  by (induction pins) (simp_all add: HapticMotor_pin_def intensityInRange_def)

text \<open>
  Claim C7. A motor built by either constructor of \<^verbatim>\<open>HapticMotor\<close> has intensity 0. From
  motors whose intensities lie between 0 and 255, and so from freshly constructed ones,
  after each call of any finite sequence of trigger and update calls (the first \<open>n\<close> calls
  of the sequence, for every \<open>n\<close>) the intensity of every motor lies between 0 and 255,
  whatever intensities the calls request, whatever the guard reads and whatever level the
  patterns prescribe.
\<close>

theorem intensity_within_range:
  "currentIntensity HapticMotor_default = 0
   \<and> currentIntensity (HapticMotor_pin p) = 0
   \<and> (\<forall>m \<in> set (applyOps level (take n calls) (map HapticMotor_pin pins)).
        0 \<le> currentIntensity m \<and> currentIntensity m \<le> 255)
   \<and> ((\<forall>m \<in> set ms. 0 \<le> currentIntensity m \<and> currentIntensity m \<le> 255) \<longrightarrow>
        (\<forall>m \<in> set (applyOps level (take n calls) ms).
           0 \<le> currentIntensity m \<and> currentIntensity m \<le> 255))"
proof (intro conjI impI)
  show "currentIntensity HapticMotor_default = 0"
    by (simp add: HapticMotor_default_def)
  show "currentIntensity (HapticMotor_pin p) = 0"
    by (simp add: HapticMotor_pin_def)
  have "list_all intensityInRange (applyOps level (take n calls) (map HapticMotor_pin pins))"
    by (rule applyOps_range [OF fresh_range])
  then show "\<forall>m \<in> set (applyOps level (take n calls) (map HapticMotor_pin pins)).
        0 \<le> currentIntensity m \<and> currentIntensity m \<le> 255"
    unfolding list_all_iff intensityInRange_def .
  assume "\<forall>m \<in> set ms. 0 \<le> currentIntensity m \<and> currentIntensity m \<le> 255"
  then have "list_all intensityInRange ms"
    unfolding list_all_iff intensityInRange_def .
  then have "list_all intensityInRange (applyOps level (take n calls) ms)"
    by (rule applyOps_range)
  then show "\<forall>m \<in> set (applyOps level (take n calls) ms).
      0 \<le> currentIntensity m \<and> currentIntensity m \<le> 255"
    unfolding list_all_iff intensityInRange_def .
qed

theorem intensity_within_range_witness:
  "map currentIntensity (applyOps exampleLevel (take 1 exampleCalls) (map HapticMotor_pin [25, 26, 27]))
     = [255, 255, 255]
   \<and> map currentIntensity (applyOps exampleLevel (take 4 exampleCalls) (map HapticMotor_pin [25, 26, 27]))
     = [255, 255, 100]
   \<and> 0 \<le> currentIntensity (last (applyOps exampleLevel (take 4 exampleCalls) (map HapticMotor_pin [25, 26, 27])))
   \<and> currentIntensity (last (applyOps exampleLevel (take 4 exampleCalls) (map HapticMotor_pin [25, 26, 27])))
       \<le> 255"
proof -
  let ?after = "applyOps exampleLevel (take 4 exampleCalls) (map HapticMotor_pin [25, 26, 27])"
  have a: "map currentIntensity
             (applyOps exampleLevel (take 1 exampleCalls) (map HapticMotor_pin [25, 26, 27]))
           = [255, 255, 255]"
    by (simp add: exampleCalls_def trigger_def clampIntensity_def HapticMotor_pin_def)
  have b: "map currentIntensity ?after = [255, 255, 100]"
    by (simp add: exampleCalls_def exampleLevel_def trigger_def update_def updateMotor_def
        clampIntensity_def HapticMotor_pin_def HAPTIC_3_PIN_def)
  then have "?after \<noteq> []"
    by auto
  then have member: "last ?after \<in> set ?after"
    by simp
  have "\<forall>m \<in> set ?after. 0 \<le> currentIntensity m \<and> currentIntensity m \<le> 255"
    using intensity_within_range [of 25 exampleLevel 4 exampleCalls "[25, 26, 27]" "[]"]
    by (elim conjE)
  then have "0 \<le> currentIntensity (last ?after) \<and> currentIntensity (last ?after) \<le> 255"
    using member by (rule bspec)
  with a b show ?thesis
    by (simp only: simp_thms)
qed

lemma emergencyStop_idle: "list_all isIdle (emergencyStop ms)"
  by (induction ms) (simp_all add: emergencyStop_def motorIdle_def isIdle_def)

lemma emergencyStop_idem: "emergencyStop (emergencyStop ms) = emergencyStop ms"
  by (induction ms) (simp_all add: emergencyStop_def motorIdle_def)

lemma applyOp_tripped:
  "guardTripped c \<Longrightarrow> applyOp level c (emergencyStop ms) = emergencyStop ms"
  by (cases c) (simp_all add: trigger_def update_def emergencyStop_idem)

lemma applyOps_tripped:
  "\<forall>c \<in> set cs. guardTripped c \<Longrightarrow> applyOps level cs (emergencyStop ms) = emergencyStop ms"
  by (induction cs) (simp_all add: applyOp_tripped)

text \<open>
  Claim C8. \<open>emergencyStop\<close> leaves every motor idle, from any state of the motors. For as
  long as the overheat guard stays tripped, every later trigger is rejected (and every
  update stops the motors again): after any sequence of such calls the motors are as
  \<open>emergencyStop\<close> left them, all idle. Running \<open>emergencyStop\<close> twice is the same as running
  it once.
\<close>

theorem emergencyStop_holds:
  "list_all isIdle (emergencyStop ms)
   \<and> trigger True now z p i d (emergencyStop ms) = emergencyStop ms
   \<and> ((\<forall>c \<in> set calls. guardTripped c) \<longrightarrow>
        applyOps level calls (emergencyStop ms) = emergencyStop ms
        \<and> list_all isIdle (applyOps level calls (emergencyStop ms)))
   \<and> emergencyStop (emergencyStop ms) = emergencyStop ms"
  by (simp add: emergencyStop_idle emergencyStop_idem applyOps_tripped trigger_def)

theorem emergencyStop_holds_witness:
  "map isActive activeMotors = [True, True, True]
   \<and> list_all guardTripped overheatedCalls
   \<and> map isActive (applyOps exampleLevel overheatedCalls (emergencyStop activeMotors))
       = [False, False, False]
   \<and> map currentIntensity (applyOps exampleLevel overheatedCalls (emergencyStop activeMotors))
       = [0, 0, 0]
   \<and> list_all isIdle (applyOps exampleLevel overheatedCalls (emergencyStop activeMotors))"
proof -
  have a: "map isActive activeMotors = [True, True, True]"
    by (simp add: activeMotors_def exampleMotors_def exampleCalls_def exampleLevel_def
        trigger_def update_def updateMotor_def clampIntensity_def HapticMotor_pin_def
        HAPTIC_3_PIN_def)
  have g: "\<forall>c \<in> set overheatedCalls. guardTripped c"
    by (simp add: overheatedCalls_def)
  then have g': "list_all guardTripped overheatedCalls"
    by (simp add: list_all_iff)
  have e: "map isActive (emergencyStop activeMotors) = [False, False, False]"
    and f: "map currentIntensity (emergencyStop activeMotors) = [0, 0, 0]"
    by (simp_all add: emergencyStop_def motorIdle_def activeMotors_def exampleMotors_def
        exampleCalls_def exampleLevel_def trigger_def update_def updateMotor_def
        clampIntensity_def HapticMotor_pin_def HAPTIC_3_PIN_def)
  from a g g' e f show ?thesis
    using emergencyStop_holds [of activeMotors 0 ALL_ZONES NONE 0 0 overheatedCalls exampleLevel]
    by simp
qed

end
